theory Spec2Isabelle
  imports Complex_Main "HOL-Library.Sublist"
begin

section \<open>JavaScript strings\<close>

text \<open>
  A JavaScript string is modelled as the list of its UTF-16 code units, each a natural
  number, so that \<open>length\<close> is the source's \<open>.length\<close> and text beyond ASCII
  (the sanitizer's tests use Chinese text) is written by code unit. \<open>js\<close> embeds an
  ASCII literal of the source.
\<close>

type_synonym jsstring = "nat list"

definition js :: "string \<Rightarrow> jsstring" where
  "js s = map of_char s"

text \<open>
  White space and line terminators of ECMAScript, by code unit: what
  \<open>String.prototype.trim\<close> removes at both ends.
\<close>

definition js_whitespace :: "nat \<Rightarrow> bool" where
  "js_whitespace c =
     (c \<in> {9, 10, 11, 12, 13, 32, 160, 5760, 8232, 8233, 8239, 8287, 12288, 65279}
      \<or> (8192 \<le> c \<and> c \<le> 8202))"

definition trim :: "jsstring \<Rightarrow> jsstring" where
  "trim s = rev (dropWhile js_whitespace (rev (dropWhile js_whitespace s)))"

text \<open>A value is falsy when it is \<open>undefined\<close> or the empty string.\<close>

definition truthy :: "jsstring option \<Rightarrow> bool" where
  "truthy v = (case v of None \<Rightarrow> False | Some s \<Rightarrow> s \<noteq> [])"

text \<open>
  Numbers in template literals: an integer (below \<open>10^21\<close> in magnitude) prints in
  decimal, with a minus sign when negative.
\<close>

fun dec_nat :: "nat \<Rightarrow> jsstring" where
  "dec_nat n = (if n < 10 then [48 + n] else dec_nat (n div 10) @ [48 + n mod 10])"

declare dec_nat.simps [simp del]

definition dec_int :: "int \<Rightarrow> jsstring" where
  "dec_int i = (if i < 0 then js ''-'' @ dec_nat (nat (- i)) else dec_nat (nat i))"

text \<open>
  \<open>(limitSize / (1024 * 1024)).toFixed(2)\<close> for an integer byte count: dividing by
  \<open>2^20\<close> is exact in binary floating point (for counts below \<open>2^53\<close>), and
  \<open>toFixed(2)\<close> takes the integer \<open>n\<close> with \<open>n / 100\<close> nearest to the value, the larger
  one on a tie, working on the magnitude and putting the sign in front.
\<close>

definition limitMB_toFixed2 :: "int \<Rightarrow> jsstring" where
  "limitMB_toFixed2 limitSize =
     (let a = nat \<bar>limitSize\<bar>;
          n = (200 * a + 1048576) div 2097152
      in (if limitSize < 0 then js ''-'' else []) @ dec_nat (n div 100) @ js ''.''
           @ [48 + n mod 100 div 10, 48 + n mod 10])"

text \<open>\<open>buffer.toString("base64")\<close>; a buffer is the list of its bytes.\<close>

type_synonym bytes = "nat list"

definition b64_char :: "nat \<Rightarrow> nat" where
  "b64_char n =
     (if n < 26 then 65 + n
      else if n < 52 then 97 + (n - 26)
      else if n < 62 then 48 + (n - 52)
      else if n = 62 then 43 else 47)"

fun base64 :: "bytes \<Rightarrow> jsstring" where
  "base64 [] = []"
| "base64 [a] = [b64_char (a div 4), b64_char (a mod 4 * 16), 61, 61]"
| "base64 [a, b] =
     [b64_char (a div 4), b64_char (a mod 4 * 16 + b div 16), b64_char (b mod 16 * 4), 61]"
| "base64 (a # b # c # rest) =
     [b64_char (a div 4), b64_char (a mod 4 * 16 + b div 16),
      b64_char (b mod 16 * 4 + c div 64), b64_char (c mod 64)] @ base64 rest"

section \<open>QQ Bot file sending (\<open>sendFileQQBot\<close>, src/unnamed/part_001)\<close>

subsection \<open>Errors and values\<close>

text \<open>
  What a \<open>throw\<close> carries. \<open>HttpError\<close>, \<open>FileSizeLimitError\<close> and
  \<open>MediaTimeoutError\<close> are the shared package's classes (subclasses of \<open>Error\<close>: each
  has a message, and the fields the code reads); \<open>Error\<close> is a plain \<open>new Error(msg)\<close>;
  \<open>Thrown\<close> is a thrown value that is no \<open>Error\<close>, given by what \<open>String\<close> makes of it.
\<close>

datatype js_error =
    Error jsstring
  | HttpError jsstring "jsstring option"
  | FileSizeLimitError jsstring int
  | MediaTimeoutError jsstring int
  | Thrown jsstring

text \<open>\<open>err instanceof Error ? err.message : String(err)\<close>\<close>

fun error_message :: "js_error \<Rightarrow> jsstring" where
  "error_message (Error m) = m"
| "error_message (HttpError m b) = m"
| "error_message (FileSizeLimitError m l) = m"
| "error_message (MediaTimeoutError m t) = m"
| "error_message (Thrown s) = s"

datatype json =
    JNull
  | JBool bool
  | JNum rat
  | JStr jsstring
  | JArr "json list"
  | JObj "(jsstring \<times> json) list"

datatype DetectedMediaType = Image | Video | Audio | OtherMedia

datatype MediaFileType = IMAGE | VIDEO | VOICE | FILE

datatype TargetKind = c2c | group

record QQBotFileTarget =
  target_kind :: TargetKind
  target_id :: jsstring

record QQBotConfig =
  appId :: "jsstring option"
  clientSecret :: "jsstring option"
  maxFileSizeMB :: "rat option"
  mediaTimeoutMs :: "int option"

record SendFileQQBotParams =
  cfg :: QQBotConfig
  target :: QQBotFileTarget
  mediaUrl :: jsstring
  messageId :: "jsstring option"

datatype upload_payload = ByUrl jsstring | ByFileData jsstring

datatype js_timestamp = TsNumber int | TsString jsstring

record send_result =
  result_id :: jsstring
  result_timestamp :: js_timestamp

record media_read =
  buffer :: bytes
  fileName :: jsstring

datatype fs_node = Dir | File bytes

text \<open>What running ffmpeg left behind: the output file it wrote, if any, and the error
  \<open>execFileSync\<close> threw, if any (a non-zero exit, or the 30 s timeout).\<close>

record exec_outcome =
  written :: "bytes option"
  thrown :: "js_error option"

subsection \<open>The calls the module makes outside itself\<close>

text \<open>
  The shared package, the platform client, Node's built-ins and the two native modules
  are not part of this file: each is a parameter. A call that can throw returns
  \<open>Inl\<close> of what it throws.
\<close>

record env =
  detectMediaType :: "jsstring \<Rightarrow> DetectedMediaType"
  isHttpUrl :: "jsstring \<Rightarrow> bool"
  stripTitleFromUrl :: "jsstring \<Rightarrow> jsstring"
  getAccessToken :: "jsstring \<Rightarrow> jsstring \<Rightarrow> js_error + jsstring"
  uploadGroupMedia :: "jsstring \<Rightarrow> jsstring \<Rightarrow> MediaFileType \<Rightarrow> upload_payload \<Rightarrow> js_error + jsstring option"
  uploadC2CMedia :: "jsstring \<Rightarrow> jsstring \<Rightarrow> MediaFileType \<Rightarrow> upload_payload \<Rightarrow> js_error + jsstring option"
  sendGroupMediaMessage :: "jsstring \<Rightarrow> jsstring \<Rightarrow> jsstring \<Rightarrow> jsstring option \<Rightarrow> js_error + send_result"
  sendC2CMediaMessage :: "jsstring \<Rightarrow> jsstring \<Rightarrow> jsstring \<Rightarrow> jsstring option \<Rightarrow> js_error + send_result"
  readMedia :: "jsstring \<Rightarrow> int \<Rightarrow> int \<Rightarrow> js_error + media_read"
  JSON_parse :: "jsstring \<Rightarrow> json option"
  Number_toString :: "rat \<Rightarrow> jsstring"
  require_ffmpeg_static :: "js_error + jsstring option"
  require_silk_wasm :: "js_error option"
  os_tmpdir :: jsstring
  mkdtempSync :: "jsstring \<Rightarrow> js_error + jsstring"
  execFileSync :: "jsstring \<Rightarrow> jsstring list \<Rightarrow> exec_outcome"
  readFileSync_error :: "jsstring \<Rightarrow> js_error"
  silk_encode :: "bytes \<Rightarrow> nat \<Rightarrow> js_error + bytes"
  rmSync_error :: "jsstring \<Rightarrow> js_error option"

text \<open>Every call that leaves the module is logged, in order.\<close>

datatype event =
    EvGetAccessToken jsstring jsstring
  | EvUploadGroupMedia jsstring jsstring MediaFileType upload_payload
  | EvUploadC2CMedia jsstring jsstring MediaFileType upload_payload
  | EvSendGroupMediaMessage jsstring jsstring jsstring "jsstring option"
  | EvSendC2CMediaMessage jsstring jsstring jsstring "jsstring option"
  | EvReadMedia jsstring int int
  | EvMkdtemp jsstring
  | EvExecFile jsstring "jsstring list"
  | EvSilkEncode bytes nat
  | EvRmSync jsstring

text \<open>The state the calls act on: the log and the file system (a path to what is there).\<close>

record state =
  trace :: "event list"
  fs :: "jsstring \<Rightarrow> fs_node option"

definition log_event :: "event \<Rightarrow> state \<Rightarrow> state" where
  "log_event e s = s\<lparr> trace := trace s @ [e] \<rparr>"

fun is_upload :: "event \<Rightarrow> bool" where
  "is_upload (EvUploadGroupMedia _ _ _ _) = True"
| "is_upload (EvUploadC2CMedia _ _ _ _) = True"
| "is_upload _ = False"

fun is_send :: "event \<Rightarrow> bool" where
  "is_send (EvSendGroupMediaMessage _ _ _ _) = True"
| "is_send (EvSendC2CMediaMessage _ _ _ _) = True"
| "is_send _ = False"

subsection \<open>The functions of the module\<close>

definition QQBOT_UNSUPPORTED_FILE_TYPE_MESSAGE :: jsstring where
  "QQBOT_UNSUPPORTED_FILE_TYPE_MESSAGE =
     js ''QQ official C2C/group media API does not support generic files (file_type=4, e.g. PDF). Images and other supported media types are unaffected.''"

definition resolveQQBotMediaFileType :: "env \<Rightarrow> jsstring \<Rightarrow> MediaFileType" where
  "resolveQQBotMediaFileType E name =
     (case detectMediaType E name of
        Image \<Rightarrow> IMAGE
      | Video \<Rightarrow> VIDEO
      | Audio \<Rightarrow> VOICE
      | _ \<Rightarrow> FILE)"

definition uploadQQBotFile ::
  "env \<Rightarrow> state \<Rightarrow> jsstring \<Rightarrow> QQBotFileTarget \<Rightarrow> MediaFileType \<Rightarrow> jsstring option
     \<Rightarrow> jsstring option \<Rightarrow> state \<times> (js_error + jsstring)" where
  "uploadQQBotFile E s accessToken tgt fileType url fileData =
     (if \<not> truthy url \<and> \<not> truthy fileData
      then (s, Inl (Error (js ''QQBot file upload requires url or fileData'')))
      else
        (let payload = (if truthy url then ByUrl (the url) else ByFileData (the fileData));
             (s', upload) =
               (if target_kind tgt = group
                then (log_event (EvUploadGroupMedia accessToken (target_id tgt) fileType payload) s,
                      uploadGroupMedia E accessToken (target_id tgt) fileType payload)
                else (log_event (EvUploadC2CMedia accessToken (target_id tgt) fileType payload) s,
                      uploadC2CMedia E accessToken (target_id tgt) fileType payload))
         in case upload of
              Inl err \<Rightarrow> (s', Inl err)
            | Inr file_info \<Rightarrow>
                if \<not> truthy file_info
                then (s', Inl (Error (js ''QQBot file upload failed: no file_info returned'')))
                else (s', Inr (the file_info))))"

text \<open>\<open>path.join\<close> on two segments that need no normalising.\<close>

definition path_join :: "jsstring \<Rightarrow> jsstring \<Rightarrow> jsstring" where
  "path_join a b = a @ js ''/'' @ b"

text \<open>A path is under a directory when it is the directory or lies below it.\<close>

definition path_under :: "jsstring \<Rightarrow> jsstring \<Rightarrow> bool" where
  "path_under d p = (p = d \<or> prefix (d @ js ''/'') p)"

text \<open>\<open>fs.rmSync(d, { recursive: true, force: true })\<close> when it succeeds.\<close>

definition remove_tree :: "jsstring \<Rightarrow> (jsstring \<Rightarrow> fs_node option) \<Rightarrow> (jsstring \<Rightarrow> fs_node option)" where
  "remove_tree d f = (\<lambda>p. if path_under d p then None else f p)"

text \<open>
  The \<open>try\<close> block of \<open>convertAudioToSilk\<close>: run ffmpeg into \<open>pcmPath\<close>, read the
  file, encode it.
\<close>

definition convert_body ::
  "env \<Rightarrow> state \<Rightarrow> jsstring \<Rightarrow> jsstring \<Rightarrow> jsstring \<Rightarrow> state \<times> (js_error + bytes)" where
  "convert_body E s ffmpegPath audioPath pcmPath =
     (let args = [js ''-y'', js ''-i'', audioPath, js ''-f'', js ''s16le'', js ''-ar'',
                  js ''24000'', js ''-ac'', js ''1'', pcmPath];
          out = execFileSync E ffmpegPath args;
          s1 = log_event (EvExecFile ffmpegPath args) s;
          s2 = (case written out of
                  Some b \<Rightarrow> s1\<lparr> fs := (fs s1)(pcmPath \<mapsto> File b) \<rparr>
                | None \<Rightarrow> s1)
      in case thrown out of
           Some err \<Rightarrow> (s2, Inl err)
         | None \<Rightarrow>
             (case fs s2 pcmPath of
                Some (File pcmBuffer) \<Rightarrow>
                  (case silk_encode E pcmBuffer 24000 of
                     Inl err \<Rightarrow> (log_event (EvSilkEncode pcmBuffer 24000) s2, Inl err)
                   | Inr data \<Rightarrow> (log_event (EvSilkEncode pcmBuffer 24000) s2, Inr data))
              | _ \<Rightarrow> (s2, Inl (readFileSync_error E pcmPath))))"

text \<open>
  The \<open>finally\<close> block: \<open>rmSync\<close> is called, and what it throws is swallowed
  (\<open>// best effort cleanup\<close>); a removal that throws leaves the tree in place.
\<close>

definition convert_cleanup :: "env \<Rightarrow> jsstring \<Rightarrow> state \<Rightarrow> state" where
  "convert_cleanup E tmpDir s =
     (let s1 = log_event (EvRmSync tmpDir) s
      in case rmSync_error E tmpDir of
           None \<Rightarrow> s1\<lparr> fs := remove_tree tmpDir (fs s1) \<rparr>
         | Some err \<Rightarrow> s1)"

definition convertAudioToSilk :: "env \<Rightarrow> state \<Rightarrow> jsstring \<Rightarrow> state \<times> (js_error + bytes)" where
  "convertAudioToSilk E s audioPath =
     (case require_ffmpeg_static E of
        Inl err \<Rightarrow> (s, Inl err)
      | Inr ffmpegPath \<Rightarrow>
          if \<not> truthy ffmpegPath then (s, Inl (Error (js ''ffmpeg-static not found'')))
          else
            (case require_silk_wasm E of
               Some err \<Rightarrow> (s, Inl err)
             | None \<Rightarrow>
                 (let prefix_path = path_join (os_tmpdir E) (js ''qqbot-silk-'');
                      s0 = log_event (EvMkdtemp prefix_path) s
                  in case mkdtempSync E prefix_path of
                       Inl err \<Rightarrow> (s0, Inl err)
                     | Inr tmpDir \<Rightarrow>
                         (let s1 = s0\<lparr> fs := (fs s0)(tmpDir \<mapsto> Dir) \<rparr>;
                              pcmPath = path_join tmpDir (js ''audio.pcm'');
                              (s2, r) = convert_body E s1 (the ffmpegPath) audioPath pcmPath
                          in (convert_cleanup E tmpDir s2, r)))))"

definition readMediaWithConfig ::
  "env \<Rightarrow> state \<Rightarrow> jsstring \<Rightarrow> int \<Rightarrow> int \<Rightarrow> state \<times> (js_error + media_read)" where
  "readMediaWithConfig E s source timeout maxSize =
     (let s1 = log_event (EvReadMedia source timeout maxSize) s
      in case readMedia E source timeout maxSize of
           Inr r \<Rightarrow> (s1, Inr r)
         | Inl (FileSizeLimitError m limitSize) \<Rightarrow>
             (s1, Inl (Error (js ''QQBot media exceeds limit ('' @ limitMB_toFixed2 limitSize
                               @ js ''MB)'')))
         | Inl (MediaTimeoutError m timeoutMs) \<Rightarrow>
             (s1, Inl (Error (js ''QQBot media read timed out after '' @ dec_int timeoutMs
                               @ js ''ms'')))
         | Inl err \<Rightarrow> (s1, Inl err))"

text \<open>\<open>String(v)\<close> for a value that came out of \<open>JSON.parse\<close>.\<close>

fun js_join :: "jsstring \<Rightarrow> jsstring list \<Rightarrow> jsstring" where
  "js_join sep [] = []"
| "js_join sep [x] = x"
| "js_join sep (x # y # ys) = x @ sep @ js_join sep (y # ys)"

fun js_String :: "(rat \<Rightarrow> jsstring) \<Rightarrow> json \<Rightarrow> jsstring" where
  "js_String num JNull = js ''null''"
| "js_String num (JBool b) = (if b then js ''true'' else js ''false'')"
| "js_String num (JNum r) = num r"
| "js_String num (JStr s) = s"
| "js_String num (JArr vs) =
     js_join (js '','') (map (\<lambda>v. case v of JNull \<Rightarrow> [] | _ \<Rightarrow> js_String num v) vs)"
| "js_String num (JObj kvs) = js ''[object Object]''"

text \<open>Reading a property of a parsed value: \<open>undefined\<close> unless it is an object that has
  the key (none of the keys read here is inherited by a string, number, boolean or array).\<close>

fun json_get :: "json \<Rightarrow> jsstring \<Rightarrow> json option" where
  "json_get (JObj kvs) k = map_of kvs k"
| "json_get _ k = None"

text \<open>
  The \<open>try\<close> block of \<open>normalizeHttpErrorBody\<close> once \<open>JSON.parse\<close> has returned:
  \<open>Some\<close> of the \<open>code=..., message=...\<close> line when the block returns, \<open>None\<close> when it
  falls through to the raw body. Reading a property of \<open>null\<close> throws, and the
  \<open>catch\<close> falls through as well.
\<close>

definition json_summary :: "env \<Rightarrow> json \<Rightarrow> jsstring option" where
  "json_summary E parsed =
     (case parsed of
        JNull \<Rightarrow> None
      | _ \<Rightarrow>
        (let code = json_get parsed (js ''code'');
             message = (case json_get parsed (js ''message'') of
                          Some (JStr m) \<Rightarrow> Some m
                        | _ \<Rightarrow> (case json_get parsed (js ''msg'') of
                                   Some (JStr m) \<Rightarrow> Some m
                                 | _ \<Rightarrow> None))
         in if code \<noteq> None \<or> truthy message
            then Some (js ''code=''
                       @ (case code of
                            None \<Rightarrow> js ''unknown''
                          | Some JNull \<Rightarrow> js ''unknown''
                          | Some c \<Rightarrow> js_String (Number_toString E) c)
                       @ js '', message=''
                       @ (case message of None \<Rightarrow> js ''unknown'' | Some m \<Rightarrow> m))
            else None))"

definition normalizeHttpErrorBody :: "env \<Rightarrow> jsstring option \<Rightarrow> jsstring option" where
  "normalizeHttpErrorBody E body =
     (let trimmed = map_option trim body
      in if \<not> truthy trimmed then None
         else
           (let t = the trimmed
            in case (case JSON_parse E t of
                       None \<Rightarrow> None
                     | Some parsed \<Rightarrow> json_summary E parsed) of
                 Some summary \<Rightarrow> Some summary
               | None \<Rightarrow> Some (if length t > 300 then take 300 t @ js ''...'' else t)))"

definition formatQQBotError :: "env \<Rightarrow> js_error \<Rightarrow> jsstring" where
  "formatQQBotError E err =
     (case err of
        HttpError m b \<Rightarrow>
          (let body = normalizeHttpErrorBody E b
           in if truthy body then m @ js '' - '' @ the body else m)
      | _ \<Rightarrow> error_message err)"

text \<open>Lines 149-167 of \<open>sendFileQQBot\<close>: the bytes of a local source. For a voice file
  the silk transcode is tried first, and whatever it throws is caught and dropped: the
  original file is read instead.\<close>

definition sendFileQQBot_buffer ::
  "env \<Rightarrow> state \<Rightarrow> MediaFileType \<Rightarrow> jsstring \<Rightarrow> int \<Rightarrow> int \<Rightarrow> state \<times> (js_error + bytes)" where
  "sendFileQQBot_buffer E s fileType src mediaTimeout maxSizeBytes =
     (if fileType = VOICE
      then
        (case convertAudioToSilk E s src of
           (s1, Inr silkData) \<Rightarrow> (s1, Inr silkData)
         | (s1, Inl err) \<Rightarrow>
             (case readMediaWithConfig E s1 src mediaTimeout maxSizeBytes of
                (s2, Inr local) \<Rightarrow> (s2, Inr (buffer local))
              | (s2, Inl err2) \<Rightarrow> (s2, Inl err2)))
      else
        (case readMediaWithConfig E s src mediaTimeout maxSizeBytes of
           (s2, Inr local) \<Rightarrow> (s2, Inr (buffer local))
         | (s2, Inl err2) \<Rightarrow> (s2, Inl err2)))"

text \<open>Lines 141-174, the body of the outer \<open>try\<close>: an http source is uploaded by its url,
  a local one by its bytes in base64.\<close>

definition sendFileQQBot_upload ::
  "env \<Rightarrow> state \<Rightarrow> jsstring \<Rightarrow> QQBotFileTarget \<Rightarrow> MediaFileType \<Rightarrow> jsstring \<Rightarrow> bool
     \<Rightarrow> int \<Rightarrow> int \<Rightarrow> state \<times> (js_error + jsstring)" where
  "sendFileQQBot_upload E s accessToken tgt fileType src sourceIsHttp mediaTimeout maxSizeBytes =
     (if sourceIsHttp
      then uploadQQBotFile E s accessToken tgt fileType (Some src) None
      else
        (case sendFileQQBot_buffer E s fileType src mediaTimeout maxSizeBytes of
           (s1, Inl err) \<Rightarrow> (s1, Inl err)
         | (s1, Inr buf) \<Rightarrow>
             uploadQQBotFile E s1 accessToken tgt fileType None (Some (base64 buf))))"

text \<open>Lines 180-204: the message that refers to the uploaded file.\<close>

definition sendFileQQBot_send ::
  "env \<Rightarrow> state \<Rightarrow> jsstring \<Rightarrow> QQBotFileTarget \<Rightarrow> jsstring \<Rightarrow> jsstring option
     \<Rightarrow> state \<times> (js_error + send_result)" where
  "sendFileQQBot_send E s accessToken tgt fileInfo msgId =
     (if target_kind tgt = group
      then
        (let s1 = log_event (EvSendGroupMediaMessage accessToken (target_id tgt) fileInfo msgId) s
         in case sendGroupMediaMessage E accessToken (target_id tgt) fileInfo msgId of
              Inr r \<Rightarrow> (s1, Inr r)
            | Inl err \<Rightarrow>
                (s1, Inl (Error (js ''QQBot group media send failed: '' @ error_message err))))
      else
        (let s1 = log_event (EvSendC2CMediaMessage accessToken (target_id tgt) fileInfo msgId) s
         in case sendC2CMediaMessage E accessToken (target_id tgt) fileInfo msgId of
              Inr r \<Rightarrow> (s1, Inr r)
            | Inl err \<Rightarrow>
                (s1, Inl (Error (js ''QQBot C2C media send failed: '' @ error_message err)))))"

text \<open>Lines 134-136: the budget of a read, from the configuration and its defaults.
  \<open>maxFileSizeMB\<close> is any finite number; multiplying by \<open>1024 * 1024\<close> is exact.\<close>

definition mediaTimeoutMs_of :: "QQBotConfig \<Rightarrow> int" where
  "mediaTimeoutMs_of c = (case mediaTimeoutMs c of None \<Rightarrow> 30000 | Some t \<Rightarrow> t)"

definition maxSizeBytes_of :: "QQBotConfig \<Rightarrow> int" where
  "maxSizeBytes_of c =
     \<lfloor>(case maxFileSizeMB c of None \<Rightarrow> 100 | Some mb \<Rightarrow> mb) * 1024 * 1024\<rfloor>"

definition sendFileQQBot ::
  "env \<Rightarrow> state \<Rightarrow> SendFileQQBotParams \<Rightarrow> state \<times> (js_error + send_result)" where
  "sendFileQQBot E s p =
     (if \<not> truthy (appId (cfg p)) \<or> \<not> truthy (clientSecret (cfg p))
      then (s, Inl (Error (js ''QQBot not configured (missing appId/clientSecret)'')))
      else
        (let src = stripTitleFromUrl E (mediaUrl p);
             fileType = resolveQQBotMediaFileType E src
         in if fileType = FILE then (s, Inl (Error QQBOT_UNSUPPORTED_FILE_TYPE_MESSAGE))
            else
              (let sourceIsHttp = isHttpUrl E src;
                   mediaTimeout = mediaTimeoutMs_of (cfg p);
                   maxSizeBytes = maxSizeBytes_of (cfg p);
                   s1 = log_event (EvGetAccessToken (the (appId (cfg p))) (the (clientSecret (cfg p)))) s
               in case getAccessToken E (the (appId (cfg p))) (the (clientSecret (cfg p))) of
                    Inl err \<Rightarrow> (s1, Inl err)
                  | Inr accessToken \<Rightarrow>
                      (case sendFileQQBot_upload E s1 accessToken (target p) fileType src
                              sourceIsHttp mediaTimeout maxSizeBytes of
                         (s2, Inl err) \<Rightarrow>
                           (s2, Inl (Error (js ''QQBot media upload failed: ''
                                             @ formatQQBotError E err)))
                       | (s2, Inr fileInfo) \<Rightarrow>
                           sendFileQQBot_send E s2 accessToken (target p) fileInfo (messageId p)))))"

text \<open>The directory \<open>convertAudioToSilk\<close> creates, when it gets as far as creating one:
  both modules load, ffmpeg has a path, and \<open>mkdtempSync\<close> returns.\<close>

definition tmpdir_of :: "env \<Rightarrow> jsstring option" where
  "tmpdir_of E =
     (case require_ffmpeg_static E of
        Inl err \<Rightarrow> None
      | Inr ffmpegPath \<Rightarrow>
          if \<not> truthy ffmpegPath then None
          else (case require_silk_wasm E of
                  Some err \<Rightarrow> None
                | None \<Rightarrow>
                    (case mkdtempSync E (path_join (os_tmpdir E) (js ''qqbot-silk-'')) of
                       Inl err \<Rightarrow> None
                     | Inr tmpDir \<Rightarrow> Some tmpDir)))"

section \<open>The process-wide CLI state (packages/shared/src/cli/china-setup.ts)\<close>

text \<open>
  \<open>getChinaCliState\<close> keeps one state object under a global symbol key and
  \<open>registerChinaSetupCli\<close> mutates what \<open>getChinaCliState\<close> returns. Whether the
  mutation reaches the global object depends on aliasing, so objects live in an explicit
  store: a value is a reference into it, and a field update changes the store at one
  address.
\<close>

datatype ChannelId = dingtalk | feishu_china | wecom | wecom_app | qqbot

definition CHANNEL_ORDER :: "ChannelId list" where
  "CHANNEL_ORDER = [dingtalk, qqbot, wecom, wecom_app, feishu_china]"

type_synonym addr = nat

datatype jsval = Undefined | BoolV bool | SetRef addr | ObjRef addr

text \<open>An object with the two fields of \<open>ChinaCliState\<close>; a field holds any value.\<close>

record cli_obj =
  channels :: jsval
  cliRegistered :: jsval

text \<open>
  The store: the global slot \<open>globalThis[CHINA_CLI_STATE_KEY]\<close>, the objects and the
  \<open>Set\<close>s by address, the next free address, and the log of calls made to
  \<open>api.registerCli\<close> (each entry is the address of the state object the registrar's
  closures captured).
\<close>

record store =
  root_slot :: jsval
  objects :: "addr \<Rightarrow> cli_obj option"
  sets :: "addr \<Rightarrow> ChannelId set option"
  next_addr :: addr
  registerCli_calls :: "addr list"

definition empty_store :: store where
  "empty_store = \<lparr> root_slot = Undefined, objects = (\<lambda>_. None), sets = (\<lambda>_. None),
     next_addr = 0, registerCli_calls = [] \<rparr>"

text \<open>\<open>typeof api.registerCli === "function"\<close> is all the code reads of the api.\<close>

record ApiLike =
  registerCli_is_function :: bool

definition isChannelId :: "ChannelId \<Rightarrow> bool" where
  "isChannelId v = (v \<in> set CHANNEL_ORDER)"

text \<open>The branch of \<open>getChinaCliState\<close> that creates the state and stores it globally:
  the object returned is the stored one.\<close>

definition create_state :: "store \<Rightarrow> addr \<times> store" where
  "create_state w =
     (let s = next_addr w; a = Suc s;
          created = \<lparr> channels = SetRef s, cliRegistered = BoolV False \<rparr>
      in (a, w\<lparr> sets := (sets w)(s \<mapsto> {}),
                 objects := (objects w)(a \<mapsto> created),
                 root_slot := ObjRef a,
                 next_addr := Suc a \<rparr>))"

text \<open>
  \<open>getChinaCliState\<close>: when the cached value is an object whose \<open>channels\<close> is a
  \<open>Set\<close> and whose \<open>cliRegistered\<close> is a boolean, the source returns a new object
  literal \<open>{ channels, cliRegistered }\<close>: a fresh address holding the same \<open>Set\<close>
  reference and a copy of the flag. The global slot still refers to the cached object.
\<close>

definition getChinaCliState :: "store \<Rightarrow> addr \<times> store" where
  "getChinaCliState w =
     (case root_slot w of
        ObjRef c \<Rightarrow>
          (case objects w c of
             Some cached \<Rightarrow>
               (case (channels cached, cliRegistered cached) of
                  (SetRef s, BoolV b) \<Rightarrow>
                    (let a = next_addr w
                     in (a, w\<lparr> objects := (objects w)(a \<mapsto>
                                   \<lparr> channels = SetRef s, cliRegistered = BoolV b \<rparr>),
                               next_addr := Suc a \<rparr>))
                | _ \<Rightarrow> create_state w)
           | None \<Rightarrow> create_state w)
      | _ \<Rightarrow> create_state w)"

definition normalizeChannels :: "ChannelId list option \<Rightarrow> ChannelId list" where
  "normalizeChannels chans =
     (let selected = (case chans of
                        Some cs \<Rightarrow> if length cs > 0 then cs else CHANNEL_ORDER
                      | None \<Rightarrow> CHANNEL_ORDER);
          unique = set (filter isChannelId selected)
      in filter (\<lambda>channelId. channelId \<in> unique) CHANNEL_ORDER)"

text \<open>\<open>state.channels.add(channelId)\<close>: the \<open>Set\<close> the object at \<open>a\<close> refers to grows.\<close>

definition add_channel :: "addr \<Rightarrow> ChannelId \<Rightarrow> store \<Rightarrow> store" where
  "add_channel a channelId w =
     (case objects w a of
        Some obj \<Rightarrow>
          (case channels obj of
             SetRef s \<Rightarrow>
               (case sets w s of
                  Some cs \<Rightarrow> w\<lparr> sets := (sets w)(s \<mapsto> insert channelId cs) \<rparr>
                | None \<Rightarrow> w)
           | _ \<Rightarrow> w)
      | None \<Rightarrow> w)"

definition flag_of :: "store \<Rightarrow> addr \<Rightarrow> bool" where
  "flag_of w a = (case objects w a of
                    Some obj \<Rightarrow> cliRegistered obj = BoolV True
                  | None \<Rightarrow> False)"

text \<open>
  \<open>registerChinaSetupCli\<close>: accumulate the channels, return when the flag of the
  object at hand is set or the api has no \<open>registerCli\<close> function, else set the flag
  \<^emph>\<open>of that object\<close> and call \<open>api.registerCli\<close>.
\<close>

definition registerChinaSetupCli :: "ApiLike \<Rightarrow> ChannelId list option \<Rightarrow> store \<Rightarrow> store" where
  "registerChinaSetupCli api chans w =
     (let (a, w1) = getChinaCliState w;
          w2 = fold (add_channel a) (normalizeChannels chans) w1
      in if flag_of w2 a \<or> \<not> registerCli_is_function api then w2
         else
           (case objects w2 a of
              Some obj \<Rightarrow>
                w2\<lparr> objects := (objects w2)(a \<mapsto> obj\<lparr> cliRegistered := BoolV True \<rparr>),
                    registerCli_calls := registerCli_calls w2 @ [a] \<rparr>
            | None \<Rightarrow> w2))"

text \<open>A sequence of calls within one process, from the state of a fresh process.\<close>

definition run_registrations :: "(ApiLike \<times> ChannelId list option) list \<Rightarrow> store" where
  "run_registrations calls = fold (\<lambda>(api, chans). registerChinaSetupCli api chans) calls empty_store"

text \<open>The channel ids the installed-channels listing reads through the global object.\<close>

definition installed_channels :: "store \<Rightarrow> ChannelId set" where
  "installed_channels w =
     (case root_slot w of
        ObjRef c \<Rightarrow>
          (case objects w c of
             Some obj \<Rightarrow> (case channels obj of
                            SetRef s \<Rightarrow> (case sets w s of Some cs \<Rightarrow> cs | None \<Rightarrow> {})
                          | _ \<Rightarrow> {})
           | None \<Rightarrow> {})
      | _ \<Rightarrow> {})"

text \<open>The state in which the flag of the global object is set.\<close>

definition registered :: "store \<Rightarrow> bool" where
  "registered w =
     (case root_slot w of
        ObjRef c \<Rightarrow>
          (case objects w c of
             Some obj \<Rightarrow>
               c < next_addr w \<and> cliRegistered obj = BoolV True
               \<and> (case channels obj of SetRef s \<Rightarrow> s < next_addr w | _ \<Rightarrow> False)
           | None \<Rightarrow> False)
      | _ \<Rightarrow> False)"

section \<open>The final-only delivery policy (extensions/qqbot/src/bot.ts)\<close>

record delivery_params =
  replyFinalOnly :: bool
  kind :: jsstring
  hasMedia :: bool
  sanitizedText :: jsstring

record DeliveryDecision =
  skipDelivery :: bool
  suppressText :: bool

text \<open>
  Modelled from the spec: \<open>evaluateReplyFinalOnlyDelivery\<close> is defined in bot.ts, which
  is not among the sources (only its tests are). The spec: when \<open>replyFinalOnly\<close> is
  enabled, non-final intermediate events are dropped entirely unless media accompanies
  them, in which case the event is delivered but its text is suppressed; final events
  are always delivered. With the policy disabled nothing is skipped or suppressed (the
  test on kind \<open>block\<close>).
\<close>

definition evaluateReplyFinalOnlyDelivery :: "delivery_params \<Rightarrow> DeliveryDecision" where
  "evaluateReplyFinalOnlyDelivery p =
     (if \<not> replyFinalOnly p \<or> kind p = js ''final''
      then \<lparr> skipDelivery = False, suppressText = False \<rparr>
      else if hasMedia p
      then \<lparr> skipDelivery = False, suppressText = True \<rparr>
      else \<lparr> skipDelivery = True, suppressText = False \<rparr>)"

section \<open>Media delivery with a text fallback (extensions/qqbot/src/bot.ts)\<close>

text \<open>
  The two outbound calls and the logger, as the test of \<open>sendQQBotMediaWithFallback\<close>
  stubs them: a send answers with an error text or with none (a thrown error counts as
  an error text).
\<close>

record outbound =
  sendMedia :: "jsstring \<Rightarrow> jsstring \<Rightarrow> jsstring option"
  sendText :: "jsstring \<Rightarrow> jsstring \<Rightarrow> jsstring option"

datatype delivery_event =
    MediaAttempt jsstring jsstring
  | TextSend jsstring jsstring
  | LogError jsstring

fun is_media_attempt :: "delivery_event \<Rightarrow> bool" where
  "is_media_attempt (MediaAttempt t m) = True"
| "is_media_attempt _ = False"

fun is_text_send :: "delivery_event \<Rightarrow> bool" where
  "is_text_send (TextSend t x) = True"
| "is_text_send _ = False"

fun is_upload_failure_log :: "delivery_event \<Rightarrow> bool" where
  "is_upload_failure_log (LogError msg) = prefix (js ''sendMedia failed'') msg"
| "is_upload_failure_log _ = False"

fun is_send_failure_log :: "delivery_event \<Rightarrow> bool" where
  "is_send_failure_log (LogError msg) = prefix (js ''sendText failed'') msg"
| "is_send_failure_log _ = False"

text \<open>
  Modelled from the spec: the loop of \<open>sendQQBotMediaWithFallback\<close> (bot.ts is not
  among the sources). \<open>deliverWithFallback\<close> tries queued media items in order; the
  first to succeed short-circuits sending. The result is the events, the references
  that failed, and whether an item succeeded; each failure is logged as an upload
  failure.
\<close>

fun try_media_queue ::
  "outbound \<Rightarrow> jsstring \<Rightarrow> jsstring list \<Rightarrow> delivery_event list \<times> jsstring list \<times> bool" where
  "try_media_queue ob to [] = ([], [], False)"
| "try_media_queue ob to (ref # queue) =
     (case sendMedia ob to ref of
        None \<Rightarrow> ([MediaAttempt to ref], [], True)
      | Some err \<Rightarrow>
          (case try_media_queue ob to queue of
             (evs, failed, ok) \<Rightarrow>
               (MediaAttempt to ref # LogError (js ''sendMedia failed: '' @ err) # evs,
                ref # failed, ok)))"

text \<open>
  Modelled from the spec: \<open>sendQQBotMediaWithFallback\<close> is defined in bot.ts, which is
  not among the sources (only its test is). The spec, section 4.3, step 5: if none of
  the queued items succeeds, send the accumulated source references as a plain-text
  fallback message and log the upload failure distinctly from a send failure. The
  references are joined by line feeds.
\<close>

definition sendQQBotMediaWithFallback ::
  "outbound \<Rightarrow> jsstring \<Rightarrow> jsstring list \<Rightarrow> delivery_event list" where
  "sendQQBotMediaWithFallback ob to mediaQueue =
     (case try_media_queue ob to mediaQueue of
        (evs, failed, ok) \<Rightarrow>
          if ok \<or> failed = [] then evs
          else
            (let fallback = js_join [10] failed
             in evs @ [TextSend to fallback]
                  @ (case sendText ob to fallback of
                       None \<Rightarrow> []
                     | Some err \<Rightarrow> [LogError (js ''sendText failed: '' @ err)])))"

section \<open>The token cache (the QQ Bot client module)\<close>

text \<open>
  \<open>getAccessToken\<close> and its cache are defined in the client module, which is not
  among the sources (\<open>sendFileQQBot\<close> only calls it): the definitions of this section follow the spec,
  section 4.1. Execution is cooperative and single-threaded, so a run is a sequence of
  events: a caller asks for the token of an account key at some time, the network call
  of a refresh completes, or an entry is invalidated.
\<close>

record CachedToken =
  token_value :: jsstring
  expiresAt :: int
  accountKey :: jsstring

datatype token_result = Token jsstring | AuthError jsstring

text \<open>
  The cache, the refreshes in flight with the callers awaiting each, the network
  refreshes started so far (by key), and what has been handed to whom: caller, key and
  result.
\<close>

record token_cache =
  cached :: "jsstring \<Rightarrow> CachedToken option"
  inflight :: "jsstring \<Rightarrow> nat list option"
  refreshes :: "jsstring list"
  delivered :: "(nat \<times> jsstring \<times> token_result) list"

text \<open>Modelled from the spec: "a margin, e.g. 60s, must be subtracted". Milliseconds.\<close>

definition safetyMargin :: int where
  "safetyMargin = 60000"

datatype cache_event =
    GetToken nat jsstring int
  | RefreshDone jsstring "jsstring + jsstring \<times> int" int
  | Invalidate jsstring
  | InvalidateAll

text \<open>Modelled from the spec: a cached token is "never returned past \<open>expiresAt\<close>".\<close>

definition fresh :: "CachedToken option \<Rightarrow> int \<Rightarrow> bool" where
  "fresh entry now = (case entry of None \<Rightarrow> False | Some t \<Rightarrow> now < expiresAt t)"

text \<open>
  Modelled from the spec: "if a refresh for \<open>accountKey\<close> is already in flight,
  concurrent callers await the same outcome rather than issuing duplicate network
  calls". A caller that misses the cache joins the refresh in flight, or starts one: a
  network call.
\<close>

definition start_or_join :: "nat \<Rightarrow> jsstring \<Rightarrow> token_cache \<Rightarrow> token_cache" where
  "start_or_join caller k s =
     (case inflight s k of
        Some waiters \<Rightarrow> s\<lparr> inflight := (inflight s)(k \<mapsto> waiters @ [caller]) \<rparr>
      | None \<Rightarrow> s\<lparr> inflight := (inflight s)(k \<mapsto> [caller]),
                    refreshes := refreshes s @ [k] \<rparr>)"

text \<open>What the callers of a refresh receive when it completes.\<close>

fun outcome_result :: "jsstring + jsstring \<times> int \<Rightarrow> token_result" where
  "outcome_result (Inl err) = AuthError err"
| "outcome_result (Inr (v, ttl)) = Token v"

text \<open>
  Modelled from the spec: \<open>getToken\<close> "returns a valid bearer token, refreshing if
  absent/expired"; "on success, store \<open>value\<close> and \<open>expiresAt = now + ttl -
  safetyMargin\<close>; on failure, do not cache; propagate the error to all waiters of that
  refresh"; \<open>invalidate(accountKey)\<close> drops a cached entry and \<open>invalidateAll()\<close> clears
  every entry.
\<close>

fun cache_step :: "cache_event \<Rightarrow> token_cache \<Rightarrow> token_cache" where
  "cache_step (GetToken caller k now) s =
     (if fresh (cached s k) now
      then s\<lparr> delivered := delivered s @ [(caller, k, Token (token_value (the (cached s k))))] \<rparr>
      else start_or_join caller k s)"
| "cache_step (RefreshDone k outcome now) s =
     (case inflight s k of
        None \<Rightarrow> s
      | Some waiters \<Rightarrow>
          s\<lparr> cached := (case outcome of
                          Inl err \<Rightarrow> cached s
                        | Inr (v, ttl) \<Rightarrow>
                            (cached s)(k \<mapsto> \<lparr> token_value = v,
                                                expiresAt = now + ttl - safetyMargin,
                                                accountKey = k \<rparr>)),
              inflight := (inflight s)(k := None),
              delivered := delivered s @ map (\<lambda>c. (c, k, outcome_result outcome)) waiters \<rparr>)"
| "cache_step (Invalidate k) s = s\<lparr> cached := (cached s)(k := None) \<rparr>"
| "cache_step InvalidateAll s = s\<lparr> cached := (\<lambda>k. None) \<rparr>"

definition run_cache :: "cache_event list \<Rightarrow> token_cache \<Rightarrow> token_cache" where
  "run_cache evs s = fold cache_step evs s"

definition empty_cache :: token_cache where
  "empty_cache = \<lparr> cached = (\<lambda>k. None), inflight = (\<lambda>k. None), refreshes = [], delivered = [] \<rparr>"

text \<open>The callers that ask for the token of \<open>k\<close> in a run, in order.\<close>

fun callers_of :: "jsstring \<Rightarrow> cache_event list \<Rightarrow> nat list" where
  "callers_of k [] = []"
| "callers_of k (GetToken caller k' now # evs) =
     (if k' = k then caller # callers_of k evs else callers_of k evs)"
| "callers_of k (e # evs) = callers_of k evs"

text \<open>
  One refresh window of \<open>k\<close>, seen from a state whose cached entry for \<open>k\<close> is \<open>entry\<close>:
  the refresh of \<open>k\<close> does not complete inside it, and no caller of \<open>k\<close> comes at a time
  at which the entry would still be served. Everything else may happen: calls,
  completions and invalidations for other keys, and invalidations of \<open>k\<close>.
\<close>

fun in_window :: "jsstring \<Rightarrow> CachedToken option \<Rightarrow> cache_event \<Rightarrow> bool" where
  "in_window k entry (GetToken caller k' now) = (k' \<noteq> k \<or> \<not> fresh entry now)"
| "in_window k entry (RefreshDone k' outcome now) = (k' \<noteq> k)"
| "in_window k entry (Invalidate k') = True"
| "in_window k entry InvalidateAll = True"

definition for_key :: "jsstring \<Rightarrow> nat \<times> jsstring \<times> token_result \<Rightarrow> bool" where
  "for_key k d = (fst (snd d) = k)"

text \<open>A run inside one refresh window of the key \<open>qqbot:app\<close>: three callers of that key,
  a caller of another key between them, and an invalidation.\<close>

definition example_window :: "cache_event list" where
  "example_window =
     [GetToken 1 (js ''qqbot:app'') 0,
      GetToken 7 (js ''wecom:corp'') 2,
      GetToken 2 (js ''qqbot:app'') 5,
      Invalidate (js ''qqbot:app''),
      GetToken 3 (js ''qqbot:app'') 9]"

section \<open>Outbound text sanitization (extensions/qqbot/src/bot.ts)\<close>

text \<open>
  \<open>sanitizeQQBotOutboundText\<close> is defined in bot.ts, which is not among the sources
  (only its tests are): the definitions of this section follow the spec, section 4.4.
\<close>










text \<open>Modelled from the spec: "a literal no-reply sentinel (case/whitespace-insensitive)
  anywhere in the text". The text contains \<open>NO_REPLY\<close> once white space is dropped and
  letters are put in upper case.\<close>

definition to_upper :: "nat \<Rightarrow> nat" where
  "to_upper c = (if 97 \<le> c \<and> c \<le> 122 then c - 32 else c)"

definition hasNoReplySentinel :: "jsstring \<Rightarrow> bool" where
  "hasNoReplySentinel s =
     sublist (js ''NO_REPLY'') (map to_upper (filter (\<lambda>c. \<not> js_whitespace c) s))"




section \<open>A small world for worked examples\<close>

text \<open>
  Media types by file extension, http sources by scheme, a platform that accepts every
  upload and every message, and sources whose content is two mebibytes when the name ends in \<open>big.mp4\<close> or
  \<open>big.mp3\<close> and three bytes otherwise.
\<close>

definition example_size :: "jsstring \<Rightarrow> nat" where
  "example_size src =
     (if suffix (js ''big.mp4'') src \<or> suffix (js ''big.mp3'') src then 2097152 else 3)"

definition example_env :: env where
  "example_env =
     \<lparr> detectMediaType = (\<lambda>n. if suffix (js ''.png'') n then Image
                                else if suffix (js ''.mp4'') n then Video
                                else if suffix (js ''.mp3'') n then Audio
                                else OtherMedia),
       isHttpUrl = (\<lambda>u. prefix (js ''http://'') u \<or> prefix (js ''https://'') u),
       stripTitleFromUrl = (\<lambda>u. u),
       getAccessToken = (\<lambda>a b. Inr (js ''token'')),
       uploadGroupMedia = (\<lambda>t g ft pl. Inr (Some (js ''file-info''))),
       uploadC2CMedia = (\<lambda>t u ft pl. Inr (Some (js ''file-info''))),
       sendGroupMediaMessage =
         (\<lambda>t g fi m. Inr \<lparr> result_id = js ''m1'', result_timestamp = TsNumber 1 \<rparr>),
       sendC2CMediaMessage =
         (\<lambda>t u fi m. Inr \<lparr> result_id = js ''m1'', result_timestamp = TsNumber 1 \<rparr>),
       readMedia =
         (\<lambda>src t maxSize.
            if int (example_size src) > maxSize
            then Inl (FileSizeLimitError (js ''File size exceeds limit'') maxSize)
            else Inr \<lparr> buffer = replicate (example_size src) 0, fileName = src \<rparr>),
       JSON_parse = (\<lambda>b. None),
       Number_toString = (\<lambda>r. dec_int \<lfloor>r\<rfloor>),
       require_ffmpeg_static = Inr (Some (js ''/usr/bin/ffmpeg'')),
       require_silk_wasm = None,
       os_tmpdir = js ''/tmp'',
       mkdtempSync = (\<lambda>p. Inr (p @ js ''Ab12Cd'')),
       execFileSync = (\<lambda>f args. \<lparr> written = Some [0, 0], thrown = None \<rparr>),
       readFileSync_error = (\<lambda>p. Error (js ''ENOENT'')),
       silk_encode = (\<lambda>pcm rate. Inr [2, 35, 33]),
       rmSync_error = (\<lambda>d. None) \<rparr>"

definition example_state :: state where
  "example_state = \<lparr> trace = [], fs = (\<lambda>p. None) \<rparr>"

definition example_cfg :: QQBotConfig where
  "example_cfg = \<lparr> appId = Some (js ''app''), clientSecret = Some (js ''secret''),
                   maxFileSizeMB = Some 1, mediaTimeoutMs = None \<rparr>"

definition example_params :: "jsstring \<Rightarrow> SendFileQQBotParams" where
  "example_params url =
     \<lparr> cfg = example_cfg, target = \<lparr> target_kind = c2c, target_id = js ''user'' \<rparr>,
       mediaUrl = url, messageId = None \<rparr>"

text \<open>The same world with a silk encoder that always fails.\<close>

definition failing_encoder_env :: env where
  "failing_encoder_env =
     example_env\<lparr> silk_encode := (\<lambda>pcm rate. Inl (Error (js ''silk encode failed''))) \<rparr>"

text \<open>
  An HTTP error body that is a JSON object with a long message,
  \<open>{"message":"aaa...a"}\<close> with 400 letters, and a world whose \<open>JSON.parse\<close> parses
  it (and nothing else); and a body of 400 letters between blanks that is no JSON.
\<close>

definition long_message :: jsstring where
  "long_message = replicate 400 97"

definition json_body :: jsstring where
  "json_body = [123, 34] @ js ''message'' @ [34, 58, 34] @ long_message @ [34, 125]"

definition json_env :: env where
  "json_env =
     example_env\<lparr> JSON_parse :=
       (\<lambda>b. if b = json_body then Some (JObj [(js ''message'', JStr long_message)]) else None) \<rparr>"

definition raw_body :: jsstring where
  "raw_body = js '' '' @ replicate 400 120 @ js '' ''"

text \<open>The example world with a platform that answers every C2C upload with an HTTP
  error carrying that body.\<close>

definition http_failure_env :: env where
  "http_failure_env =
     example_env\<lparr> uploadC2CMedia :=
       (\<lambda>t u ft pl. Inl (HttpError (js ''HTTP 502'') (Some raw_body))) \<rparr>"

text \<open>The outbound stubs of the fallback test: the media send reports an error, the
  text send works.\<close>

definition test_outbound :: outbound where
  "test_outbound =
     \<lparr> sendMedia = (\<lambda>to ref. Some (js ''upload failed'')),
       sendText = (\<lambda>to body. None) \<rparr>"

section \<open>Properties\<close>

subsection \<open>Auxiliary facts about file sending\<close>

lemma truthy_Some [simp]: "truthy (Some s) = (s \<noteq> [])" by (simp add: truthy_def)
lemma truthy_None [simp]: "truthy None = False" by (simp add: truthy_def)

lemma trace_convert_cleanup: "trace (convert_cleanup E d s) = trace s @ [EvRmSync d]"
  by (simp add: convert_cleanup_def log_event_def Let_def split: option.splits)

lemma fs_convert_cleanup:
  "fs (convert_cleanup E d s) =
     (case rmSync_error E d of None \<Rightarrow> remove_tree d (fs s) | Some err \<Rightarrow> fs s)"
  by (simp add: convert_cleanup_def log_event_def Let_def split: option.splits)

lemma trace_convert_body:
  "\<exists>evs. trace (fst (convert_body E s f a pcm)) = trace s @ evs
         \<and> EvRmSync d \<notin> set evs \<and> filter is_upload evs = [] \<and> filter is_send evs = []"
  by (auto simp add: convert_body_def log_event_def Let_def split: option.splits fs_node.splits sum.splits)

lemma fs_convert_body:
  "p \<noteq> pcm \<Longrightarrow> fs (fst (convert_body E s f a pcm)) p = fs s p"
  by (simp add: convert_body_def log_event_def Let_def split: option.splits fs_node.splits sum.splits)

lemma convertAudioToSilk_no_tmpdir:
  "tmpdir_of E = None \<Longrightarrow> fs (fst (convertAudioToSilk E s a)) = fs s"
  by (simp add: tmpdir_of_def convertAudioToSilk_def log_event_def Let_def
           split: option.splits sum.splits if_splits)

lemma convertAudioToSilk_tmpdir:
  assumes "tmpdir_of E = Some d"
  shows "convertAudioToSilk E s a =
           (let s1 = (log_event (EvMkdtemp (path_join (os_tmpdir E) (js ''qqbot-silk-''))) s)
                       \<lparr> fs := (fs s)(d \<mapsto> Dir) \<rparr>;
                b = convert_body E s1 (the (projr (require_ffmpeg_static E))) a
                      (path_join d (js ''audio.pcm''))
            in (convert_cleanup E d (fst b), snd b))"
  using assms
  by (simp add: tmpdir_of_def convertAudioToSilk_def log_event_def Let_def
           split: option.splits sum.splits if_splits prod.splits)

lemma path_under_pcm: "path_under d (path_join d x)"
  by (simp add: path_under_def path_join_def)

lemmas example_defs = example_env_def example_state_def example_params_def example_cfg_def
  example_size_def

lemma ex_tmpdir: "tmpdir_of example_env = Some (js ''/tmp/qqbot-silk-Ab12Cd'')"
  by (simp add: tmpdir_of_def example_env_def path_join_def js_def)

lemma convertAudioToSilk_trace:
  "\<exists>evs. trace (fst (convertAudioToSilk E s a)) = trace s @ evs
         \<and> filter is_upload evs = [] \<and> filter is_send evs = []"
proof (cases "tmpdir_of E")
  case None
  then show ?thesis
    by (auto simp add: tmpdir_of_def convertAudioToSilk_def log_event_def Let_def
           split: option.splits sum.splits if_splits)
next
  case (Some d)
  define s1 where "s1 = (log_event (EvMkdtemp (path_join (os_tmpdir E) (js ''qqbot-silk-''))) s)
                       \<lparr> fs := (fs s)(d \<mapsto> Dir) \<rparr>"
  define b where "b = convert_body E s1 (the (projr (require_ffmpeg_static E))) a
                      (path_join d (js ''audio.pcm''))"
  have res: "fst (convertAudioToSilk E s a) = convert_cleanup E d (fst b)"
    using convertAudioToSilk_tmpdir [OF Some, of s a] by (simp add: Let_def s1_def b_def)
  obtain evs where evs: "trace (fst b) = trace s1 @ evs" "filter is_upload evs = []"
      "filter is_send evs = []"
    using trace_convert_body [of E s1 _ a _ d] unfolding b_def by blast
  have "trace (fst (convertAudioToSilk E s a))
          = trace s @ (EvMkdtemp (path_join (os_tmpdir E) (js ''qqbot-silk-'')) # evs @ [EvRmSync d])"
    using evs by (simp add: res trace_convert_cleanup s1_def log_event_def)
  moreover have "filter is_upload (EvMkdtemp (path_join (os_tmpdir E) (js ''qqbot-silk-'')) # evs @ [EvRmSync d]) = []"
     "filter is_send (EvMkdtemp (path_join (os_tmpdir E) (js ''qqbot-silk-'')) # evs @ [EvRmSync d]) = []"
    using evs by simp_all
  ultimately show ?thesis by blast
qed

lemma trace_uploadQQBotFile:
  "\<exists>evs. trace (fst (uploadQQBotFile E s tok tgt ft url fd)) = trace s @ evs"
  by (simp add: uploadQQBotFile_def log_event_def Let_def split: sum.splits)

lemma trace_sendFileQQBot_send:
  "\<exists>evs. trace (fst (sendFileQQBot_send E s tok tgt fi mid)) = trace s @ evs"
  by (simp add: sendFileQQBot_send_def log_event_def Let_def split: sum.splits)

lemmas send_defs = sendFileQQBot_def sendFileQQBot_upload_def sendFileQQBot_buffer_def
  sendFileQQBot_send_def uploadQQBotFile_def readMediaWithConfig_def
  resolveQQBotMediaFileType_def log_event_def formatQQBotError_def
  mediaTimeoutMs_of_def maxSizeBytes_of_def
lemmas convert_defs = convertAudioToSilk_def convert_body_def convert_cleanup_def path_join_def

lemma json_summary_nonempty: "json_summary E parsed = Some r \<Longrightarrow> r \<noteq> []"
  by (auto simp add: json_summary_def js_def Let_def split: json.splits if_splits)

lemma normalizeHttpErrorBody_nonempty:
  assumes "normalizeHttpErrorBody E body = Some r"
  shows "r \<noteq> []"
proof (cases "truthy (map_option trim body)")
  case False
  then show ?thesis using assms by (simp add: normalizeHttpErrorBody_def Let_def)
next
  case True
  then obtain t where t: "map_option trim body = Some t" "t \<noteq> []"
    by (cases "map_option trim body") (auto simp: truthy_def)
  show ?thesis
    using assms t json_summary_nonempty
    by (auto simp add: normalizeHttpErrorBody_def Let_def js_def split: option.splits if_splits)
qed

lemma sendFileQQBot_upload_failure:
  assumes "truthy (appId (cfg p))" "truthy (clientSecret (cfg p))"
    and "resolveQQBotMediaFileType E (stripTitleFromUrl E (mediaUrl p)) \<noteq> FILE"
    and "getAccessToken E (the (appId (cfg p))) (the (clientSecret (cfg p))) = Inr tok"
    and "sendFileQQBot_upload E
           (log_event (EvGetAccessToken (the (appId (cfg p))) (the (clientSecret (cfg p)))) s)
           tok (target p) (resolveQQBotMediaFileType E (stripTitleFromUrl E (mediaUrl p)))
           (stripTitleFromUrl E (mediaUrl p)) (isHttpUrl E (stripTitleFromUrl E (mediaUrl p)))
           (mediaTimeoutMs_of (cfg p)) (maxSizeBytes_of (cfg p)) = (s2, Inl err)"
  shows "sendFileQQBot E s p
           = (s2, Inl (Error (js ''QQBot media upload failed: '' @ formatQQBotError E err)))"
  using assms by (simp add: sendFileQQBot_def Let_def)

lemma rev_long_message: "rev long_message = long_message"
  by (simp add: long_message_def)

lemma trim_json_body: "trim json_body = json_body"
  by (simp add: trim_def json_body_def js_def js_whitespace_def rev_long_message)

lemma json_body_nonempty: "json_body \<noteq> []"
  by (simp add: json_body_def)

lemma trim_raw_body: "trim raw_body = replicate 400 120"
  by (simp add: trim_def raw_body_def js_def js_whitespace_def)

lemma normalizeHttpErrorBody_None_iff:
  "normalizeHttpErrorBody E body = None \<longleftrightarrow> (body = None \<or> trim (the body) = [])"
  by (cases body) (auto simp add: normalizeHttpErrorBody_def Let_def split: option.splits)

lemma normalizeHttpErrorBody_summary:
  assumes "trim b \<noteq> []" "JSON_parse E (trim b) = Some parsed" "json_summary E parsed = Some summary"
  shows "normalizeHttpErrorBody E (Some b) = Some summary"
  using assms by (simp add: normalizeHttpErrorBody_def Let_def)

lemma normalizeHttpErrorBody_raw:
  assumes "trim b \<noteq> []"
    and "JSON_parse E (trim b) = None
         \<or> (\<exists>parsed. JSON_parse E (trim b) = Some parsed \<and> json_summary E parsed = None)"
  shows "normalizeHttpErrorBody E (Some b)
           = Some (if length (trim b) > 300 then take 300 (trim b) @ js ''...'' else trim b)"
  using assms by (auto simp add: normalizeHttpErrorBody_def Let_def)

lemma json_summary_message_only:
  assumes "map_of kvs (js ''code'') = None" "map_of kvs (js ''message'') = Some (JStr msg)" "msg \<noteq> []"
  shows "json_summary E (JObj kvs) = Some (js ''code=unknown, message='' @ msg)"
  using assms by (simp add: json_summary_def Let_def js_def)

lemma json_summary_code_and_message:
  assumes "map_of kvs (js ''code'') = Some c" "c \<noteq> JNull"
    "map_of kvs (js ''message'') = Some (JStr msg)"
  shows "json_summary E (JObj kvs)
           = Some (js ''code='' @ js_String (Number_toString E) c @ js '', message='' @ msg)"
  using assms by (cases c) (simp_all add: json_summary_def Let_def)

lemma json_summary_code_only:
  assumes "map_of kvs (js ''code'') = Some c" "c \<noteq> JNull"
    "map_of kvs (js ''message'') = None" "map_of kvs (js ''msg'') = None"
  shows "json_summary E (JObj kvs)
           = Some (js ''code='' @ js_String (Number_toString E) c @ js '', message=unknown'')"
  using assms by (cases c) (simp_all add: json_summary_def Let_def js_def)

lemma json_summary_none:
  "json_summary E JNull = None"
  "json_summary E (JBool bv) = None"
  "json_summary E (JNum n) = None"
  "json_summary E (JStr t) = None"
  "json_summary E (JArr vs) = None"
  "map_of kvs (js ''code'') = None \<Longrightarrow> map_of kvs (js ''message'') = None
     \<Longrightarrow> map_of kvs (js ''msg'') = None \<Longrightarrow> json_summary E (JObj kvs) = None"
  by (simp_all add: json_summary_def Let_def)

subsection \<open>Size limit\<close>

text \<open>
  C1 (as amended). For a configured account and a local (non-http) source of a supported
  media type that is read through \<open>readMedia\<close> (any image or video, and a voice
  file whose silk transcode has failed): when \<open>readMedia\<close>, called with the
  configured timeout and \<open>maxSizeBytes = floor(maxFileSizeMB * 1024 * 1024)\<close>, raises
  \<open>FileSizeLimitError\<close>, \<open>sendFileQQBot\<close> throws a plain \<open>Error\<close> whose message is
  \<open>QQBot media upload failed: QQBot media exceeds limit (N MB)\<close>, and no upload and
  no send call is made (the access token has been fetched by then).
\<close>

theorem sendFileQQBot_oversize_local_rejected:
  assumes cfgd: "truthy (appId (cfg p))" "truthy (clientSecret (cfg p))"
    and ft: "resolveQQBotMediaFileType E (stripTitleFromUrl E (mediaUrl p)) \<noteq> FILE"
    and loc: "\<not> isHttpUrl E (stripTitleFromUrl E (mediaUrl p))"
    and tok: "getAccessToken E (the (appId (cfg p))) (the (clientSecret (cfg p))) = Inr tok"
    and conv: "resolveQQBotMediaFileType E (stripTitleFromUrl E (mediaUrl p)) = VOICE \<longrightarrow>
               (\<exists>err. snd (convertAudioToSilk E
                   (log_event (EvGetAccessToken (the (appId (cfg p))) (the (clientSecret (cfg p)))) s)
                   (stripTitleFromUrl E (mediaUrl p))) = Inl err)"
    and big: "readMedia E (stripTitleFromUrl E (mediaUrl p)) (mediaTimeoutMs_of (cfg p))
                (maxSizeBytes_of (cfg p)) = Inl (FileSizeLimitError m limitSize)"
  shows "snd (sendFileQQBot E s p) =
           Inl (Error (js ''QQBot media upload failed: '' @ js ''QQBot media exceeds limit (''
                         @ limitMB_toFixed2 limitSize @ js ''MB)''))
       \<and> filter is_upload (trace (fst (sendFileQQBot E s p))) = filter is_upload (trace s)
       \<and> filter is_send (trace (fst (sendFileQQBot E s p))) = filter is_send (trace s)"
proof -
  define src where "src = stripTitleFromUrl E (mediaUrl p)"
  define s1 where "s1 = log_event (EvGetAccessToken (the (appId (cfg p))) (the (clientSecret (cfg p)))) s"
  define ftype where "ftype = resolveQQBotMediaFileType E src"
  define msg where "msg = js ''QQBot media exceeds limit ('' @ limitMB_toFixed2 limitSize @ js ''MB)''"
  have rd: "\<And>s'. readMediaWithConfig E s' src (mediaTimeoutMs_of (cfg p)) (maxSizeBytes_of (cfg p))
              = (log_event (EvReadMedia src (mediaTimeoutMs_of (cfg p)) (maxSizeBytes_of (cfg p))) s',
                 Inl (Error msg))"
    using big by (simp add: readMediaWithConfig_def src_def msg_def Let_def)
  obtain sb where sb: "sendFileQQBot_buffer E s1 ftype src (mediaTimeoutMs_of (cfg p)) (maxSizeBytes_of (cfg p))
            = (sb, Inl (Error msg))"
      and sbt: "filter is_upload (trace sb) = filter is_upload (trace s1)"
               "filter is_send (trace sb) = filter is_send (trace s1)"
  proof (cases "ftype = VOICE")
    case True
    then obtain err where e: "snd (convertAudioToSilk E s1 src) = Inl err"
      using conv by (auto simp: ftype_def src_def s1_def)
    obtain sc where sc: "convertAudioToSilk E s1 src = (sc, Inl err)"
      using e by (cases "convertAudioToSilk E s1 src") auto
    obtain evs where evs: "trace sc = trace s1 @ evs" "filter is_upload evs = []" "filter is_send evs = []"
      using convertAudioToSilk_trace [of E s1 src] sc by auto
    show ?thesis
      by (rule that [of "log_event (EvReadMedia src (mediaTimeoutMs_of (cfg p)) (maxSizeBytes_of (cfg p))) sc"])
         (simp_all add: sendFileQQBot_buffer_def True sc rd log_event_def evs)
  next
    case False
    show ?thesis
      by (rule that [of "log_event (EvReadMedia src (mediaTimeoutMs_of (cfg p)) (maxSizeBytes_of (cfg p))) s1"])
         (simp_all add: sendFileQQBot_buffer_def False rd log_event_def)
  qed
  have up: "sendFileQQBot_upload E s1 tok (target p) ftype src False (mediaTimeoutMs_of (cfg p)) (maxSizeBytes_of (cfg p))
              = (sb, Inl (Error msg))"
    by (simp add: sendFileQQBot_upload_def sb)
  have res: "sendFileQQBot E s p = (sb, Inl (Error (js ''QQBot media upload failed: '' @ msg)))"
    using cfgd ft loc tok up
    by (simp add: sendFileQQBot_def Let_def src_def [symmetric] ftype_def [symmetric]
          s1_def [symmetric] formatQQBotError_def)
  show ?thesis
    using sbt by (simp add: res msg_def s1_def log_event_def)
qed

theorem sendFileQQBot_oversize_local_rejected_witness:
  "snd (convertAudioToSilk failing_encoder_env
          (log_event (EvGetAccessToken (js ''app'') (js ''secret'')) example_state) (js ''/data/big.mp3''))
     = Inl (Error (js ''silk encode failed''))
   \<and> readMedia failing_encoder_env (js ''/data/big.mp3'') 30000 1048576
       = Inl (FileSizeLimitError (js ''File size exceeds limit'') 1048576)
   \<and> snd (sendFileQQBot failing_encoder_env example_state (example_params (js ''/data/big.mp3'')))
       = Inl (Error (js ''QQBot media upload failed: QQBot media exceeds limit (1.00MB)''))
   \<and> filter is_upload (trace (fst (sendFileQQBot failing_encoder_env example_state
                                      (example_params (js ''/data/big.mp3''))))) = []
   \<and> filter is_send (trace (fst (sendFileQQBot failing_encoder_env example_state
                                      (example_params (js ''/data/big.mp3''))))) = []"
proof -
  let ?p = "example_params (js ''/data/big.mp3'')"
  let ?E = failing_encoder_env
  have cfgd: "truthy (appId (cfg ?p))" "truthy (clientSecret (cfg ?p))"
    by (simp_all add: example_defs js_def)
  have src: "stripTitleFromUrl ?E (mediaUrl ?p) = js ''/data/big.mp3''"
    by (simp add: example_defs failing_encoder_env_def)
  have ft: "resolveQQBotMediaFileType ?E (stripTitleFromUrl ?E (mediaUrl ?p)) \<noteq> FILE"
    by (simp add: resolveQQBotMediaFileType_def example_defs failing_encoder_env_def js_def suffix_to_prefix)
  have loc: "\<not> isHttpUrl ?E (stripTitleFromUrl ?E (mediaUrl ?p))"
    by (simp add: example_defs failing_encoder_env_def js_def)
  have tok: "getAccessToken ?E (the (appId (cfg ?p))) (the (clientSecret (cfg ?p))) = Inr (js ''token'')"
    by (simp add: example_defs failing_encoder_env_def)
  have ids: "the (appId (cfg ?p)) = js ''app''" "the (clientSecret (cfg ?p)) = js ''secret''"
    by (simp_all add: example_defs)
  have conv: "snd (convertAudioToSilk ?E
          (log_event (EvGetAccessToken (js ''app'') (js ''secret'')) example_state) (js ''/data/big.mp3''))
     = Inl (Error (js ''silk encode failed''))"
    by (simp add: convert_defs log_event_def example_defs failing_encoder_env_def js_def Let_def)
  have conv': "resolveQQBotMediaFileType ?E (stripTitleFromUrl ?E (mediaUrl ?p)) = VOICE \<longrightarrow>
               (\<exists>err. snd (convertAudioToSilk ?E
                   (log_event (EvGetAccessToken (the (appId (cfg ?p))) (the (clientSecret (cfg ?p)))) example_state)
                   (stripTitleFromUrl ?E (mediaUrl ?p))) = Inl err)"
    using conv by (simp add: src ids)
  have budget: "mediaTimeoutMs_of (cfg ?p) = 30000" "maxSizeBytes_of (cfg ?p) = 1048576"
    by (simp_all add: mediaTimeoutMs_of_def maxSizeBytes_of_def example_defs)
  have big0: "readMedia ?E (js ''/data/big.mp3'') 30000 1048576
       = Inl (FileSizeLimitError (js ''File size exceeds limit'') 1048576)"
    by (simp add: example_defs failing_encoder_env_def js_def suffix_to_prefix)
  have big: "readMedia ?E (stripTitleFromUrl ?E (mediaUrl ?p)) (mediaTimeoutMs_of (cfg ?p))
                (maxSizeBytes_of (cfg ?p)) = Inl (FileSizeLimitError (js ''File size exceeds limit'') 1048576)"
    using big0 by (simp add: src budget)
  have fx: "limitMB_toFixed2 1048576 = js ''1.00''"
    by (simp add: limitMB_toFixed2_def dec_nat.simps js_def)
  show ?thesis
    using sendFileQQBot_oversize_local_rejected [OF cfgd ft loc tok conv' big] conv big0
    by (simp add: fx example_state_def js_def)
qed

text \<open>
  C1 as stated fails for an http source: it is uploaded by its url, nothing
  reads or measures its content, and the upload call is made although \<open>readMedia\<close>
  would reject the same source under the configured limit.
\<close>

theorem sendFileQQBot_http_oversize_counterexample:
  "isHttpUrl example_env (js ''https://example.com/big.mp4'')
   \<and> readMedia example_env (js ''https://example.com/big.mp4'') (mediaTimeoutMs_of example_cfg)
        (maxSizeBytes_of example_cfg) = Inl (FileSizeLimitError (js ''File size exceeds limit'') 1048576)
   \<and> snd (sendFileQQBot example_env example_state (example_params (js ''https://example.com/big.mp4'')))
        = Inr \<lparr> result_id = js ''m1'', result_timestamp = TsNumber 1 \<rparr>
   \<and> trace (fst (sendFileQQBot example_env example_state (example_params (js ''https://example.com/big.mp4''))))
        = [EvGetAccessToken (js ''app'') (js ''secret''),
           EvUploadC2CMedia (js ''token'') (js ''user'') VIDEO (ByUrl (js ''https://example.com/big.mp4'')),
           EvSendC2CMediaMessage (js ''token'') (js ''user'') (js ''file-info'') None]"
  by (simp add: send_defs example_defs js_def suffix_to_prefix)

subsection \<open>Generic files\<close>

text \<open>
  C2 (as amended). A media reference classified into the generic file class is rejected
  at once, with the state untouched: no token is fetched, nothing is read, nothing is
  uploaded. The error is a plain \<open>Error\<close> carrying the unsupported-file-type message
  when the configuration has an \<open>appId\<close> and a \<open>clientSecret\<close>, and the
  not-configured \<open>Error\<close> otherwise.
\<close>

theorem sendFileQQBot_generic_file_rejected:
  assumes "resolveQQBotMediaFileType E (stripTitleFromUrl E (mediaUrl p)) = FILE"
  shows "sendFileQQBot E s p =
           (s, Inl (Error (if truthy (appId (cfg p)) \<and> truthy (clientSecret (cfg p))
                           then QQBOT_UNSUPPORTED_FILE_TYPE_MESSAGE
                           else js ''QQBot not configured (missing appId/clientSecret)'')))"
  using assms by (simp add: sendFileQQBot_def)

theorem sendFileQQBot_generic_file_rejected_witness:
  "resolveQQBotMediaFileType example_env (stripTitleFromUrl example_env (js ''/data/report.pdf'')) = FILE
   \<and> sendFileQQBot example_env example_state (example_params (js ''/data/report.pdf''))
       = (example_state, Inl (Error QQBOT_UNSUPPORTED_FILE_TYPE_MESSAGE))"
proof -
  have h: "resolveQQBotMediaFileType example_env
             (stripTitleFromUrl example_env (mediaUrl (example_params (js ''/data/report.pdf'')))) = FILE"
    by (simp add: resolveQQBotMediaFileType_def example_defs js_def suffix_to_prefix)
  show ?thesis
    using h sendFileQQBot_generic_file_rejected [OF h, of example_state]
    by (simp add: example_params_def example_cfg_def js_def)
qed

text \<open>
  C2 as stated fails without credentials: the configuration is checked before
  the media type, and the rejection of a generic file is then the not-configured error.
\<close>

theorem sendFileQQBot_unconfigured_file_counterexample:
  "resolveQQBotMediaFileType example_env (stripTitleFromUrl example_env (js ''/data/report.pdf'')) = FILE
   \<and> sendFileQQBot example_env example_state
         ((example_params (js ''/data/report.pdf''))\<lparr> cfg := example_cfg\<lparr> appId := None \<rparr> \<rparr>)
       = (example_state, Inl (Error (js ''QQBot not configured (missing appId/clientSecret)'')))
   \<and> js ''QQBot not configured (missing appId/clientSecret)'' \<noteq> QQBOT_UNSUPPORTED_FILE_TYPE_MESSAGE"
  by (simp add: send_defs example_defs js_def suffix_to_prefix QQBOT_UNSUPPORTED_FILE_TYPE_MESSAGE_def)

subsection \<open>Temporary files of the transcode\<close>

text \<open>
  C7 (as amended). When \<open>convertAudioToSilk\<close> creates no temporary directory, it
  leaves the file system as it was. When it creates one, then on every exit path
  (a result, or an error of ffmpeg, of the read or of the encoder) \<open>rmSync\<close> is called
  on that directory exactly once, as the last step; if that removal succeeds, nothing
  at or under the directory remains; and paths outside the directory are never touched.
\<close>

theorem convertAudioToSilk_cleanup:
  "(case tmpdir_of E of
      None \<Rightarrow> fs (fst (convertAudioToSilk E s a)) = fs s
    | Some d \<Rightarrow>
        (\<exists>evs. trace (fst (convertAudioToSilk E s a)) = trace s @ evs @ [EvRmSync d]
              \<and> EvRmSync d \<notin> set evs)
        \<and> (rmSync_error E d = None \<longrightarrow>
             (\<forall>p. path_under d p \<longrightarrow> fs (fst (convertAudioToSilk E s a)) p = None))
        \<and> (\<forall>p. \<not> path_under d p \<longrightarrow> fs (fst (convertAudioToSilk E s a)) p = fs s p))"
proof (cases "tmpdir_of E")
  case None
  then show ?thesis by (simp add: convertAudioToSilk_no_tmpdir)
next
  case (Some d)
  define s1 where "s1 = (log_event (EvMkdtemp (path_join (os_tmpdir E) (js ''qqbot-silk-''))) s)
                       \<lparr> fs := (fs s)(d \<mapsto> Dir) \<rparr>"
  define b where "b = convert_body E s1 (the (projr (require_ffmpeg_static E))) a
                      (path_join d (js ''audio.pcm''))"
  have res: "fst (convertAudioToSilk E s a) = convert_cleanup E d (fst b)"
    using convertAudioToSilk_tmpdir [OF Some, of s a] by (simp add: Let_def s1_def b_def)
  obtain evs where evs: "trace (fst b) = trace s1 @ evs" "EvRmSync d \<notin> set evs"
    using trace_convert_body [of E s1 _ a _ d] unfolding b_def by blast
  have t1: "trace s1 = trace s @ [EvMkdtemp (path_join (os_tmpdir E) (js ''qqbot-silk-''))]"
    by (simp add: s1_def log_event_def)
  have tr: "\<exists>evs. trace (fst (convertAudioToSilk E s a)) = trace s @ evs @ [EvRmSync d]
              \<and> EvRmSync d \<notin> set evs"
    using evs t1 by (simp add: res trace_convert_cleanup)
  have rm: "rmSync_error E d = None \<longrightarrow>
             (\<forall>p. path_under d p \<longrightarrow> fs (fst (convertAudioToSilk E s a)) p = None)"
    by (simp add: res fs_convert_cleanup remove_tree_def)
  have out: "\<forall>p. \<not> path_under d p \<longrightarrow> fs (fst (convertAudioToSilk E s a)) p = fs s p"
  proof (intro allI impI)
    fix p assume np: "\<not> path_under d p"
    then have "p \<noteq> path_join d (js ''audio.pcm'')" "p \<noteq> d"
      using path_under_pcm by (auto simp: path_under_def)
    then have "fs (fst b) p = fs s p"
      unfolding b_def by (simp add: fs_convert_body s1_def log_event_def)
    then show "fs (fst (convertAudioToSilk E s a)) p = fs s p"
      using np by (simp add: res fs_convert_cleanup remove_tree_def split: option.splits)
  qed
  show ?thesis using Some tr rm out by simp
qed

theorem convertAudioToSilk_cleanup_witness:
  "tmpdir_of example_env = Some (js ''/tmp/qqbot-silk-Ab12Cd'')
   \<and> rmSync_error example_env (js ''/tmp/qqbot-silk-Ab12Cd'') = None
   \<and> fs (fst (convertAudioToSilk example_env example_state (js ''/data/voice.mp3'')))
        (js ''/tmp/qqbot-silk-Ab12Cd/audio.pcm'') = None
   \<and> fs (fst (convertAudioToSilk example_env example_state (js ''/data/voice.mp3'')))
        (js ''/tmp/qqbot-silk-Ab12Cd'') = None"
proof -
  have u1: "path_under (js ''/tmp/qqbot-silk-Ab12Cd'') (js ''/tmp/qqbot-silk-Ab12Cd/audio.pcm'')"
    by (simp add: path_under_def js_def)
  have u2: "path_under (js ''/tmp/qqbot-silk-Ab12Cd'') (js ''/tmp/qqbot-silk-Ab12Cd'')"
    by (simp add: path_under_def)
  have rm: "rmSync_error example_env (js ''/tmp/qqbot-silk-Ab12Cd'') = None"
    by (simp add: example_env_def)
  show ?thesis
    using convertAudioToSilk_cleanup [of example_env example_state "js ''/data/voice.mp3''"] u1 u2 rm
    by (simp add: ex_tmpdir)
qed

text \<open>
  C7 as stated fails when the removal itself throws: the \<open>catch\<close> around
  \<open>rmSync\<close> swallows the error, the call returns the encoded audio, and the directory
  and the PCM file are still there.
\<close>

theorem convertAudioToSilk_rmSync_failure_counterexample:
  "snd (convertAudioToSilk (example_env\<lparr> rmSync_error := (\<lambda>d. Some (Error (js ''EBUSY''))) \<rparr>)
          example_state (js ''/data/voice.mp3'')) = Inr [2, 35, 33]
   \<and> fs (fst (convertAudioToSilk (example_env\<lparr> rmSync_error := (\<lambda>d. Some (Error (js ''EBUSY''))) \<rparr>)
          example_state (js ''/data/voice.mp3'')))
        (js ''/tmp/qqbot-silk-Ab12Cd'') = Some Dir
   \<and> fs (fst (convertAudioToSilk (example_env\<lparr> rmSync_error := (\<lambda>d. Some (Error (js ''EBUSY''))) \<rparr>)
          example_state (js ''/data/voice.mp3'')))
        (js ''/tmp/qqbot-silk-Ab12Cd/audio.pcm'') = Some (File [0, 0])
   \<and> fs example_state (js ''/tmp/qqbot-silk-Ab12Cd'') = None"
  by (simp add: convertAudioToSilk_def convert_body_def convert_cleanup_def log_event_def
        path_join_def example_defs js_def Let_def)

subsection \<open>Fallback after a failed transcode\<close>

text \<open>
  C3. For a configured account, a local voice source and a token: when
  \<open>convertAudioToSilk\<close> throws, whatever it throws, \<open>sendFileQQBot\<close> goes on to read
  the original file with \<open>readMedia\<close> and to upload those bytes in base64; its result
  is the result of that read, upload and send, in which the transcode error does not
  occur.
\<close>

theorem sendFileQQBot_transcode_failure_falls_back:
  assumes cfgd: "truthy (appId (cfg p))" "truthy (clientSecret (cfg p))"
    and ft: "resolveQQBotMediaFileType E (stripTitleFromUrl E (mediaUrl p)) = VOICE"
    and loc: "\<not> isHttpUrl E (stripTitleFromUrl E (mediaUrl p))"
    and tok: "getAccessToken E (the (appId (cfg p))) (the (clientSecret (cfg p))) = Inr tok"
    and conv: "convertAudioToSilk E
                 (log_event (EvGetAccessToken (the (appId (cfg p))) (the (clientSecret (cfg p)))) s)
                 (stripTitleFromUrl E (mediaUrl p)) = (sc, Inl err)"
  shows "sendFileQQBot E s p =
           (case readMediaWithConfig E sc (stripTitleFromUrl E (mediaUrl p))
                   (mediaTimeoutMs_of (cfg p)) (maxSizeBytes_of (cfg p)) of
              (sr, Inl rerr) \<Rightarrow>
                (sr, Inl (Error (js ''QQBot media upload failed: '' @ formatQQBotError E rerr)))
            | (sr, Inr local) \<Rightarrow>
                (case uploadQQBotFile E sr tok (target p) VOICE None (Some (base64 (buffer local))) of
                   (su, Inl uerr) \<Rightarrow>
                     (su, Inl (Error (js ''QQBot media upload failed: '' @ formatQQBotError E uerr)))
                 | (su, Inr fileInfo) \<Rightarrow>
                     sendFileQQBot_send E su tok (target p) fileInfo (messageId p)))
       \<and> EvReadMedia (stripTitleFromUrl E (mediaUrl p)) (mediaTimeoutMs_of (cfg p))
            (maxSizeBytes_of (cfg p)) \<in> set (trace (fst (sendFileQQBot E s p)))"
proof -
  define src where "src = stripTitleFromUrl E (mediaUrl p)"
  define s1 where "s1 = log_event (EvGetAccessToken (the (appId (cfg p))) (the (clientSecret (cfg p)))) s"
  define t where "t = mediaTimeoutMs_of (cfg p)"
  define mx where "mx = maxSizeBytes_of (cfg p)"
  define rhs where "rhs =
           (case readMediaWithConfig E sc src t mx of
              (sr, Inl rerr) \<Rightarrow>
                (sr, Inl (Error (js ''QQBot media upload failed: '' @ formatQQBotError E rerr)))
            | (sr, Inr local) \<Rightarrow>
                (case uploadQQBotFile E sr tok (target p) VOICE None (Some (base64 (buffer local))) of
                   (su, Inl uerr) \<Rightarrow>
                     (su, Inl (Error (js ''QQBot media upload failed: '' @ formatQQBotError E uerr)))
                 | (su, Inr fileInfo) \<Rightarrow>
                     sendFileQQBot_send E su tok (target p) fileInfo (messageId p)))"
  have conv': "convertAudioToSilk E s1 src = (sc, Inl err)"
    using conv by (simp add: s1_def src_def)
  have eq: "sendFileQQBot E s p = rhs"
    using cfgd ft loc tok conv'
    by (simp add: sendFileQQBot_def Let_def src_def [symmetric] s1_def [symmetric]
          t_def [symmetric] mx_def [symmetric] sendFileQQBot_upload_def sendFileQQBot_buffer_def
          rhs_def split: prod.splits sum.splits)
  obtain sr r where rd: "readMediaWithConfig E sc src t mx = (sr, r)"
    by (cases "readMediaWithConfig E sc src t mx") auto
  have sr: "trace sr = trace sc @ [EvReadMedia src t mx]"
    using rd by (auto simp add: readMediaWithConfig_def log_event_def Let_def
                      split: sum.splits js_error.splits)
  have "EvReadMedia src t mx \<in> set (trace (fst rhs))"
  proof (cases r)
    case (Inl rerr)
    then show ?thesis by (simp add: rhs_def rd sr)
  next
    case (Inr local)
    obtain su ur where up: "uploadQQBotFile E sr tok (target p) VOICE None (Some (base64 (buffer local))) = (su, ur)"
      by (cases "uploadQQBotFile E sr tok (target p) VOICE None (Some (base64 (buffer local)))") auto
    obtain evs where su: "trace su = trace sr @ evs"
      using trace_uploadQQBotFile [of E sr tok "target p" VOICE None "Some (base64 (buffer local))"] up
      by auto
    show ?thesis
    proof (cases ur)
      case (Inl uerr)
      then show ?thesis by (simp add: rhs_def rd Inr up su sr)
    next
      case (Inr fileInfo)
      obtain evs2 where "trace (fst (sendFileQQBot_send E su tok (target p) fileInfo (messageId p))) = trace su @ evs2"
        using trace_sendFileQQBot_send by blast
      then show ?thesis using \<open>r = Inr local\<close> by (simp add: rhs_def rd Inr up su sr)
    qed
  qed
  then show ?thesis
    using eq by (simp add: rhs_def src_def t_def mx_def)
qed

theorem sendFileQQBot_transcode_failure_falls_back_witness:
  "snd (convertAudioToSilk failing_encoder_env
          (log_event (EvGetAccessToken (js ''app'') (js ''secret'')) example_state) (js ''/data/voice.mp3''))
     = Inl (Error (js ''silk encode failed''))
   \<and> snd (sendFileQQBot failing_encoder_env example_state (example_params (js ''/data/voice.mp3'')))
       = Inr \<lparr> result_id = js ''m1'', result_timestamp = TsNumber 1 \<rparr>
   \<and> filter is_upload (trace (fst (sendFileQQBot failing_encoder_env example_state
                                      (example_params (js ''/data/voice.mp3'')))))
       = [EvUploadC2CMedia (js ''token'') (js ''user'') VOICE (ByFileData (js ''AAAA''))]
   \<and> EvReadMedia (js ''/data/voice.mp3'') 30000 1048576
         \<in> set (trace (fst (sendFileQQBot failing_encoder_env example_state
                                      (example_params (js ''/data/voice.mp3'')))))"
proof -
  let ?p = "example_params (js ''/data/voice.mp3'')"
  let ?E = failing_encoder_env
  let ?s1 = "log_event (EvGetAccessToken (js ''app'') (js ''secret'')) example_state"
  have cfgd: "truthy (appId (cfg ?p))" "truthy (clientSecret (cfg ?p))"
    by (simp_all add: example_defs js_def)
  have src: "stripTitleFromUrl ?E (mediaUrl ?p) = js ''/data/voice.mp3''"
    by (simp add: example_defs failing_encoder_env_def)
  have ft: "resolveQQBotMediaFileType ?E (stripTitleFromUrl ?E (mediaUrl ?p)) = VOICE"
    by (simp add: resolveQQBotMediaFileType_def example_defs failing_encoder_env_def js_def suffix_to_prefix)
  have loc: "\<not> isHttpUrl ?E (stripTitleFromUrl ?E (mediaUrl ?p))"
    by (simp add: example_defs failing_encoder_env_def js_def)
  have tok: "getAccessToken ?E (the (appId (cfg ?p))) (the (clientSecret (cfg ?p))) = Inr (js ''token'')"
    by (simp add: example_defs failing_encoder_env_def)
  have ids: "the (appId (cfg ?p)) = js ''app''" "the (clientSecret (cfg ?p)) = js ''secret''"
    by (simp_all add: example_defs)
  have conv: "snd (convertAudioToSilk ?E ?s1 (js ''/data/voice.mp3'')) = Inl (Error (js ''silk encode failed''))"
    by (simp add: convert_defs log_event_def example_defs failing_encoder_env_def js_def Let_def)
  have conv': "convertAudioToSilk ?E
                 (log_event (EvGetAccessToken (the (appId (cfg ?p))) (the (clientSecret (cfg ?p)))) example_state)
                 (stripTitleFromUrl ?E (mediaUrl ?p))
               = (fst (convertAudioToSilk ?E ?s1 (js ''/data/voice.mp3'')), Inl (Error (js ''silk encode failed'')))"
    using conv by (simp add: src ids prod_eq_iff)
  have budget: "mediaTimeoutMs_of (cfg ?p) = 30000" "maxSizeBytes_of (cfg ?p) = 1048576"
    by (simp_all add: mediaTimeoutMs_of_def maxSizeBytes_of_def example_defs)
  have tr: "trace (fst (convertAudioToSilk ?E ?s1 (js ''/data/voice.mp3'')))
            = [EvGetAccessToken (js ''app'') (js ''secret''),
               EvMkdtemp (js ''/tmp/qqbot-silk-''),
               EvExecFile (js ''/usr/bin/ffmpeg'')
                 [js ''-y'', js ''-i'', js ''/data/voice.mp3'', js ''-f'', js ''s16le'', js ''-ar'',
                  js ''24000'', js ''-ac'', js ''1'', js ''/tmp/qqbot-silk-Ab12Cd/audio.pcm''],
               EvSilkEncode [0, 0] 24000,
               EvRmSync (js ''/tmp/qqbot-silk-Ab12Cd'')]"
    by (simp add: convert_defs log_event_def example_defs failing_encoder_env_def js_def Let_def)
  have rd: "readMedia ?E (js ''/data/voice.mp3'') 30000 1048576
            = Inr \<lparr> buffer = [0, 0, 0], fileName = js ''/data/voice.mp3'' \<rparr>"
    by (simp add: example_defs failing_encoder_env_def js_def suffix_to_prefix numeral_3_eq_3)
  have b64: "base64 [0, 0, 0] = js ''AAAA''"
    by (simp add: b64_char_def js_def)
  define sc where "sc = fst (convertAudioToSilk ?E ?s1 (js ''/data/voice.mp3''))"
  define sr where "sr = log_event (EvReadMedia (js ''/data/voice.mp3'') 30000 1048576) sc"
  define su where "su = log_event (EvUploadC2CMedia (js ''token'') (js ''user'') VOICE
                                     (ByFileData (js ''AAAA''))) sr"
  define sd where "sd = log_event (EvSendC2CMediaMessage (js ''token'') (js ''user'')
                                     (js ''file-info'') None) su"
  have r1: "readMediaWithConfig ?E sc (js ''/data/voice.mp3'') 30000 1048576
              = (sr, Inr \<lparr> buffer = [0, 0, 0], fileName = js ''/data/voice.mp3'' \<rparr>)"
    by (simp add: readMediaWithConfig_def rd sr_def)
  have tg: "target ?p = \<lparr> target_kind = c2c, target_id = js ''user'' \<rparr>" "messageId ?p = None"
    by (simp_all add: example_params_def)
  have nonempty: "js ''AAAA'' \<noteq> []" "js ''file-info'' \<noteq> []"
    by (simp_all add: js_def)
  have r2: "uploadQQBotFile ?E sr (js ''token'') (target ?p) VOICE None (Some (js ''AAAA''))
              = (su, Inr (js ''file-info''))"
    by (simp add: uploadQQBotFile_def tg su_def nonempty failing_encoder_env_def example_env_def)
  have r3: "sendFileQQBot_send ?E su (js ''token'') (target ?p) (js ''file-info'') (messageId ?p)
              = (sd, Inr \<lparr> result_id = js ''m1'', result_timestamp = TsNumber 1 \<rparr>)"
    by (simp add: sendFileQQBot_send_def tg sd_def failing_encoder_env_def example_env_def)
  note fb = sendFileQQBot_transcode_failure_falls_back [OF cfgd ft loc tok conv']
  have res: "sendFileQQBot ?E example_state ?p
               = (sd, Inr \<lparr> result_id = js ''m1'', result_timestamp = TsNumber 1 \<rparr>)"
    using fb [THEN conjunct1]
    by (simp add: src budget sc_def [symmetric] r1 b64 r2 r3 del: base64.simps)
  have mem: "EvReadMedia (js ''/data/voice.mp3'') 30000 1048576
                \<in> set (trace (fst (sendFileQQBot ?E example_state ?p)))"
    using fb [THEN conjunct2] by (simp only: src budget)
  have up: "filter is_upload (trace sd)
              = [EvUploadC2CMedia (js ''token'') (js ''user'') VOICE (ByFileData (js ''AAAA''))]"
  proof -
    have "filter is_upload (trace sc) = []"
      unfolding sc_def tr by simp
    then show ?thesis
      by (simp add: sd_def su_def sr_def log_event_def)
  qed
  show ?thesis
    using conv mem up by (simp add: res)
qed

subsection \<open>HTTP error bodies\<close>

text \<open>
  C8 (as amended). An error thrown in the upload phase is rethrown as
  \<open>QQBot media upload failed: \<close> followed by \<open>formatQQBotError\<close> of it; for an
  \<open>HttpError\<close> that is its message, followed by \<open> - \<close> and the normalised body when
  there is one. There is none exactly when the body is absent or blank. A body that
  parses as JSON into a value with a code or a non-empty message is normalised to the
  line \<open>code=..., message=...\<close>, which carries the parsed code and message in full:
  \<open>code=unknown\<close> when there is no code, \<open>message=unknown\<close> when there is no message.
  Every other non-blank body is normalised to its trimmed text when that has at most
  300 characters, and otherwise to its first 300 characters followed by \<open>...\<close>: at most
  303 characters.
\<close>

theorem formatQQBotError_http_body_bounded:
  "formatQQBotError E (HttpError m body) =
     (case normalizeHttpErrorBody E body of None \<Rightarrow> m | Some r \<Rightarrow> m @ js '' - '' @ r)
   \<and> (\<forall>r. normalizeHttpErrorBody E body = Some r \<longrightarrow>
          (\<exists>parsed. JSON_parse E (trim (the body)) = Some parsed \<and> json_summary E parsed = Some r)
          \<or> (r = (if length (trim (the body)) > 300
                   then take 300 (trim (the body)) @ js ''...'' else trim (the body))
              \<and> length r \<le> 303))
   \<and> (truthy (appId (cfg p)) \<and> truthy (clientSecret (cfg p))
        \<and> resolveQQBotMediaFileType E (stripTitleFromUrl E (mediaUrl p)) \<noteq> FILE
        \<and> getAccessToken E (the (appId (cfg p))) (the (clientSecret (cfg p))) = Inr tok
        \<and> sendFileQQBot_upload E
             (log_event (EvGetAccessToken (the (appId (cfg p))) (the (clientSecret (cfg p)))) s)
             tok (target p) (resolveQQBotMediaFileType E (stripTitleFromUrl E (mediaUrl p)))
             (stripTitleFromUrl E (mediaUrl p)) (isHttpUrl E (stripTitleFromUrl E (mediaUrl p)))
             (mediaTimeoutMs_of (cfg p)) (maxSizeBytes_of (cfg p)) = (s2, Inl (HttpError m body))
        \<longrightarrow> sendFileQQBot E s p
              = (s2, Inl (Error (js ''QQBot media upload failed: ''
                                  @ formatQQBotError E (HttpError m body)))))
   \<and> (normalizeHttpErrorBody E body = None \<longleftrightarrow> (body = None \<or> trim (the body) = []))
   \<and> (\<forall>b parsed summary.
          trim b \<noteq> [] \<and> JSON_parse E (trim b) = Some parsed \<and> json_summary E parsed = Some summary
          \<longrightarrow> normalizeHttpErrorBody E (Some b) = Some summary)
   \<and> (\<forall>b. trim b \<noteq> []
            \<and> (JSON_parse E (trim b) = None
                 \<or> (\<exists>parsed. JSON_parse E (trim b) = Some parsed \<and> json_summary E parsed = None))
          \<longrightarrow> normalizeHttpErrorBody E (Some b)
                = Some (if length (trim b) > 300 then take 300 (trim b) @ js ''...'' else trim b))
   \<and> (\<forall>kvs msg.
          map_of kvs (js ''code'') = None \<and> map_of kvs (js ''message'') = Some (JStr msg) \<and> msg \<noteq> []
          \<longrightarrow> json_summary E (JObj kvs) = Some (js ''code=unknown, message='' @ msg))
   \<and> (\<forall>kvs c msg.
          map_of kvs (js ''code'') = Some c \<and> c \<noteq> JNull \<and> map_of kvs (js ''message'') = Some (JStr msg)
          \<longrightarrow> json_summary E (JObj kvs)
                = Some (js ''code='' @ js_String (Number_toString E) c @ js '', message='' @ msg))
   \<and> (\<forall>kvs c.
          map_of kvs (js ''code'') = Some c \<and> c \<noteq> JNull \<and> map_of kvs (js ''message'') = None
            \<and> map_of kvs (js ''msg'') = None
          \<longrightarrow> json_summary E (JObj kvs)
                = Some (js ''code='' @ js_String (Number_toString E) c @ js '', message=unknown''))
   \<and> (\<forall>kvs.
          map_of kvs (js ''code'') = None \<and> map_of kvs (js ''message'') = None
            \<and> map_of kvs (js ''msg'') = None
          \<longrightarrow> json_summary E (JObj kvs) = None)"
proof -
  have a: "formatQQBotError E (HttpError m body) =
     (case normalizeHttpErrorBody E body of None \<Rightarrow> m | Some r \<Rightarrow> m @ js '' - '' @ r)"
    using normalizeHttpErrorBody_nonempty [of E body]
    by (auto simp add: formatQQBotError_def Let_def split: option.splits)
  have b: "(\<exists>parsed. JSON_parse E (trim (the body)) = Some parsed \<and> json_summary E parsed = Some r)
          \<or> (r = (if length (trim (the body)) > 300
                   then take 300 (trim (the body)) @ js ''...'' else trim (the body))
              \<and> length r \<le> 303)"
    if r: "normalizeHttpErrorBody E body = Some r" for r
  proof (cases body)
    case None
    then show ?thesis using r by (simp add: normalizeHttpErrorBody_def)
  next
    case (Some b0)
    show ?thesis
    proof (cases "JSON_parse E (trim b0)")
      case None
      then show ?thesis
        using r Some by (auto simp add: normalizeHttpErrorBody_def Let_def js_def split: if_splits)
    next
      case (Some parsed)
      show ?thesis
      proof (cases "json_summary E parsed")
        case None
        then show ?thesis
          using r \<open>body = Some b0\<close> Some
          by (auto simp add: normalizeHttpErrorBody_def Let_def js_def split: if_splits)
      next
        case (Some summary)
        then show ?thesis
          using r \<open>body = Some b0\<close> \<open>JSON_parse E (trim b0) = Some parsed\<close>
          by (auto simp add: normalizeHttpErrorBody_def Let_def split: if_splits)
      qed
    qed
  qed
  have c: "sendFileQQBot E s p
              = (s2, Inl (Error (js ''QQBot media upload failed: ''
                                  @ formatQQBotError E (HttpError m body))))"
    if "truthy (appId (cfg p)) \<and> truthy (clientSecret (cfg p))
        \<and> resolveQQBotMediaFileType E (stripTitleFromUrl E (mediaUrl p)) \<noteq> FILE
        \<and> getAccessToken E (the (appId (cfg p))) (the (clientSecret (cfg p))) = Inr tok
        \<and> sendFileQQBot_upload E
             (log_event (EvGetAccessToken (the (appId (cfg p))) (the (clientSecret (cfg p)))) s)
             tok (target p) (resolveQQBotMediaFileType E (stripTitleFromUrl E (mediaUrl p)))
             (stripTitleFromUrl E (mediaUrl p)) (isHttpUrl E (stripTitleFromUrl E (mediaUrl p)))
             (mediaTimeoutMs_of (cfg p)) (maxSizeBytes_of (cfg p)) = (s2, Inl (HttpError m body))"
    using that sendFileQQBot_upload_failure [of p E tok s s2 "HttpError m body"] by blast
  have abc: "formatQQBotError E (HttpError m body) =
     (case normalizeHttpErrorBody E body of None \<Rightarrow> m | Some r \<Rightarrow> m @ js '' - '' @ r)
   \<and> (\<forall>r. normalizeHttpErrorBody E body = Some r \<longrightarrow>
          (\<exists>parsed. JSON_parse E (trim (the body)) = Some parsed \<and> json_summary E parsed = Some r)
          \<or> (r = (if length (trim (the body)) > 300
                   then take 300 (trim (the body)) @ js ''...'' else trim (the body))
              \<and> length r \<le> 303))
   \<and> (truthy (appId (cfg p)) \<and> truthy (clientSecret (cfg p))
        \<and> resolveQQBotMediaFileType E (stripTitleFromUrl E (mediaUrl p)) \<noteq> FILE
        \<and> getAccessToken E (the (appId (cfg p))) (the (clientSecret (cfg p))) = Inr tok
        \<and> sendFileQQBot_upload E
             (log_event (EvGetAccessToken (the (appId (cfg p))) (the (clientSecret (cfg p)))) s)
             tok (target p) (resolveQQBotMediaFileType E (stripTitleFromUrl E (mediaUrl p)))
             (stripTitleFromUrl E (mediaUrl p)) (isHttpUrl E (stripTitleFromUrl E (mediaUrl p)))
             (mediaTimeoutMs_of (cfg p)) (maxSizeBytes_of (cfg p)) = (s2, Inl (HttpError m body))
        \<longrightarrow> sendFileQQBot E s p
              = (s2, Inl (Error (js ''QQBot media upload failed: ''
                                  @ formatQQBotError E (HttpError m body)))))"
    using a b c by blast
  have d: "normalizeHttpErrorBody E body = None \<longleftrightarrow> (body = None \<or> trim (the body) = [])"
    by (rule normalizeHttpErrorBody_None_iff)
  have e: "\<forall>b parsed summary.
          trim b \<noteq> [] \<and> JSON_parse E (trim b) = Some parsed \<and> json_summary E parsed = Some summary
          \<longrightarrow> normalizeHttpErrorBody E (Some b) = Some summary"
    using normalizeHttpErrorBody_summary by blast
  have f: "\<forall>b. trim b \<noteq> []
            \<and> (JSON_parse E (trim b) = None
                 \<or> (\<exists>parsed. JSON_parse E (trim b) = Some parsed \<and> json_summary E parsed = None))
          \<longrightarrow> normalizeHttpErrorBody E (Some b)
                = Some (if length (trim b) > 300 then take 300 (trim b) @ js ''...'' else trim b)"
    using normalizeHttpErrorBody_raw [of _ E] by blast
  have g: "\<forall>kvs msg.
          map_of kvs (js ''code'') = None \<and> map_of kvs (js ''message'') = Some (JStr msg) \<and> msg \<noteq> []
          \<longrightarrow> json_summary E (JObj kvs) = Some (js ''code=unknown, message='' @ msg)"
    using json_summary_message_only by blast
  have h: "\<forall>kvs c msg.
          map_of kvs (js ''code'') = Some c \<and> c \<noteq> JNull \<and> map_of kvs (js ''message'') = Some (JStr msg)
          \<longrightarrow> json_summary E (JObj kvs)
                = Some (js ''code='' @ js_String (Number_toString E) c @ js '', message='' @ msg)"
    using json_summary_code_and_message by blast
  have i: "\<forall>kvs c.
          map_of kvs (js ''code'') = Some c \<and> c \<noteq> JNull \<and> map_of kvs (js ''message'') = None
            \<and> map_of kvs (js ''msg'') = None
          \<longrightarrow> json_summary E (JObj kvs)
                = Some (js ''code='' @ js_String (Number_toString E) c @ js '', message=unknown'')"
    using json_summary_code_only by blast
  have j: "\<forall>kvs.
          map_of kvs (js ''code'') = None \<and> map_of kvs (js ''message'') = None
            \<and> map_of kvs (js ''msg'') = None
          \<longrightarrow> json_summary E (JObj kvs) = None"
    using json_summary_none(6) by blast
  from abc d e f g h i j show ?thesis
    by (intro conjI) (erule conjunct1, erule conjunct2 [THEN conjunct1],
        erule conjunct2 [THEN conjunct2], assumption+)
qed

theorem formatQQBotError_http_body_bounded_witness:
  "normalizeHttpErrorBody http_failure_env (Some raw_body) = Some (replicate 300 120 @ js ''...'')
   \<and> length (replicate 300 120 @ js ''...'') = (303::nat)
   \<and> sendFileQQBot http_failure_env example_state (example_params (js ''https://example.com/a.png''))
       = (\<lparr> trace = [EvGetAccessToken (js ''app'') (js ''secret''),
                      EvUploadC2CMedia (js ''token'') (js ''user'') IMAGE
                        (ByUrl (js ''https://example.com/a.png''))],
             fs = (\<lambda>p. None) \<rparr>,
          Inl (Error (js ''QQBot media upload failed: HTTP 502 - '' @ replicate 300 120 @ js ''...'')))
   \<and> normalizeHttpErrorBody example_env (Some (js ''   '')) = None
   \<and> formatQQBotError example_env (HttpError (js ''HTTP 500'') (Some (js ''   ''))) = js ''HTTP 500''
   \<and> normalizeHttpErrorBody json_env (Some json_body)
       = Some (js ''code=unknown, message='' @ long_message)
   \<and> json_summary example_env (JObj [(js ''code'', JNum 40001), (js ''message'', JStr (js ''bad''))])
       = Some (js ''code=40001, message=bad'')
   \<and> json_summary example_env (JObj [(js ''code'', JNum 40001)])
       = Some (js ''code=40001, message=unknown'')
   \<and> json_summary example_env (JObj [(js ''error'', JStr (js ''bad''))]) = None"
proof -
  let ?E = http_failure_env
  let ?p = "example_params (js ''https://example.com/a.png'')"
  let ?s2 = "\<lparr> trace = [EvGetAccessToken (js ''app'') (js ''secret''),
                      EvUploadC2CMedia (js ''token'') (js ''user'') IMAGE
                        (ByUrl (js ''https://example.com/a.png''))],
               fs = (\<lambda>p. None) \<rparr>"
  note spec = formatQQBotError_http_body_bounded
                [of ?E "js ''HTTP 502''" "Some raw_body" ?p "js ''token''" example_state ?s2]
  have np: "JSON_parse ?E (trim raw_body) = None"
    by (simp add: http_failure_env_def example_env_def)
  have ne: "trim raw_body \<noteq> []"
    by (simp add: trim_raw_body)
  have n: "normalizeHttpErrorBody ?E (Some raw_body) = Some (replicate 300 120 @ js ''...'')"
    using spec [THEN conjunct2, THEN conjunct2, THEN conjunct2, THEN conjunct2, THEN conjunct2,
                THEN conjunct1, rule_format, of raw_body] np ne
    by (simp add: trim_raw_body)
  have h: "truthy (appId (cfg ?p)) \<and> truthy (clientSecret (cfg ?p))
        \<and> resolveQQBotMediaFileType ?E (stripTitleFromUrl ?E (mediaUrl ?p)) \<noteq> FILE
        \<and> getAccessToken ?E (the (appId (cfg ?p))) (the (clientSecret (cfg ?p))) = Inr (js ''token'')
        \<and> sendFileQQBot_upload ?E
             (log_event (EvGetAccessToken (the (appId (cfg ?p))) (the (clientSecret (cfg ?p)))) example_state)
             (js ''token'') (target ?p) (resolveQQBotMediaFileType ?E (stripTitleFromUrl ?E (mediaUrl ?p)))
             (stripTitleFromUrl ?E (mediaUrl ?p)) (isHttpUrl ?E (stripTitleFromUrl ?E (mediaUrl ?p)))
             (mediaTimeoutMs_of (cfg ?p)) (maxSizeBytes_of (cfg ?p))
           = (?s2, Inl (HttpError (js ''HTTP 502'') (Some raw_body)))"
    by (simp add: sendFileQQBot_upload_def uploadQQBotFile_def resolveQQBotMediaFileType_def
          log_event_def http_failure_env_def example_defs js_def suffix_to_prefix)
  have fmt: "formatQQBotError ?E (HttpError (js ''HTTP 502'') (Some raw_body))
               = js ''HTTP 502 - '' @ replicate 300 120 @ js ''...''"
    using spec [THEN conjunct1] by (simp add: n js_def)
  have wrap: "sendFileQQBot ?E example_state ?p
       = (?s2, Inl (Error (js ''QQBot media upload failed: HTTP 502 - '' @ replicate 300 120 @ js ''...'')))"
  proof -
    have "sendFileQQBot ?E example_state ?p
            = (?s2, Inl (Error (js ''QQBot media upload failed: ''
                                  @ formatQQBotError ?E (HttpError (js ''HTTP 502'') (Some raw_body)))))"
      using spec [THEN conjunct2, THEN conjunct2, THEN conjunct1] h by blast
    then show ?thesis
      unfolding fmt by (simp add: js_def)
  qed
  note blank = formatQQBotError_http_body_bounded
                 [of example_env "js ''HTTP 500''" "Some (js ''   '')" ?p "js ''token''" example_state ?s2]
  have tb: "trim (js ''   '') = []"
    by (simp add: trim_def js_def js_whitespace_def)
  have b1: "normalizeHttpErrorBody example_env (Some (js ''   '')) = None"
    using blank [THEN conjunct2, THEN conjunct2, THEN conjunct2, THEN conjunct1] tb by simp
  have b2: "formatQQBotError example_env (HttpError (js ''HTTP 500'') (Some (js ''   ''))) = js ''HTTP 500''"
    using blank [THEN conjunct1] by (simp add: b1)
  note jspec = formatQQBotError_http_body_bounded
                 [of json_env "js ''HTTP 500''" "Some json_body" ?p "js ''token''" example_state ?s2]
  have kv: "map_of [(js ''message'', JStr long_message)] (js ''code'') = None"
    "map_of [(js ''message'', JStr long_message)] (js ''message'') = Some (JStr long_message)"
    "long_message \<noteq> []"
    by (simp_all add: js_def long_message_def)
  have sm: "json_summary json_env (JObj [(js ''message'', JStr long_message)])
              = Some (js ''code=unknown, message='' @ long_message)"
    using jspec [THEN conjunct2, THEN conjunct2, THEN conjunct2, THEN conjunct2, THEN conjunct2,
                 THEN conjunct2, THEN conjunct1, rule_format,
                 of "[(js ''message'', JStr long_message)]" long_message] kv
    by blast
  have jp: "JSON_parse json_env (trim json_body) = Some (JObj [(js ''message'', JStr long_message)])"
    by (simp add: trim_json_body json_env_def)
  have jn: "trim json_body \<noteq> []"
    by (simp add: trim_json_body json_body_nonempty)
  have j1: "normalizeHttpErrorBody json_env (Some json_body)
              = Some (js ''code=unknown, message='' @ long_message)"
    using jspec [THEN conjunct2, THEN conjunct2, THEN conjunct2, THEN conjunct2, THEN conjunct1,
                 rule_format, of json_body "JObj [(js ''message'', JStr long_message)]"
                   "js ''code=unknown, message='' @ long_message"] jn jp sm
    by blast
  have num: "js_String (Number_toString example_env) (JNum 40001) = js ''40001''"
    by (simp add: example_env_def dec_int_def dec_nat.simps js_def)
  have kv2: "map_of [(js ''code'', JNum 40001), (js ''message'', JStr (js ''bad''))] (js ''code'')
               = Some (JNum 40001)"
    "map_of [(js ''code'', JNum 40001), (js ''message'', JStr (js ''bad''))] (js ''message'')
               = Some (JStr (js ''bad''))"
    "JNum 40001 \<noteq> JNull"
    "map_of [(js ''code'', JNum 40001)] (js ''code'') = Some (JNum 40001)"
    "map_of [(js ''code'', JNum 40001)] (js ''message'') = None"
    "map_of [(js ''code'', JNum 40001)] (js ''msg'') = None"
    "map_of [(js ''error'', JStr (js ''bad''))] (js ''code'') = None"
    "map_of [(js ''error'', JStr (js ''bad''))] (js ''message'') = None"
    "map_of [(js ''error'', JStr (js ''bad''))] (js ''msg'') = None"
    by (simp_all add: js_def)
  have k1: "json_summary example_env (JObj [(js ''code'', JNum 40001), (js ''message'', JStr (js ''bad''))])
              = Some (js ''code='' @ js ''40001'' @ js '', message='' @ js ''bad'')"
    using blank [THEN conjunct2, THEN conjunct2, THEN conjunct2, THEN conjunct2, THEN conjunct2,
                 THEN conjunct2, THEN conjunct2, THEN conjunct1, rule_format,
                 of "[(js ''code'', JNum 40001), (js ''message'', JStr (js ''bad''))]"
                    "JNum 40001" "js ''bad''"] kv2(1,2,3)
    unfolding num by blast
  have k2: "json_summary example_env (JObj [(js ''code'', JNum 40001)])
              = Some (js ''code='' @ js ''40001'' @ js '', message=unknown'')"
    using blank [THEN conjunct2, THEN conjunct2, THEN conjunct2, THEN conjunct2, THEN conjunct2,
                 THEN conjunct2, THEN conjunct2, THEN conjunct2, THEN conjunct1, rule_format,
                 of "[(js ''code'', JNum 40001)]" "JNum 40001"] kv2(3,4,5,6)
    unfolding num by blast
  have k3: "json_summary example_env (JObj [(js ''error'', JStr (js ''bad''))]) = None"
    using blank [THEN conjunct2, THEN conjunct2, THEN conjunct2, THEN conjunct2, THEN conjunct2,
                 THEN conjunct2, THEN conjunct2, THEN conjunct2, THEN conjunct2, rule_format,
                 of "[(js ''error'', JStr (js ''bad''))]"] kv2(7,8,9)
    by blast
  show ?thesis
    using n wrap b1 b2 j1 k1 k2 k3 by (simp add: js_def)
qed

text \<open>
  C8 as stated fails for a body that is JSON with a message: the whole message
  goes into the error text, here 400 letters in a text of 422 characters, longer than
  the body itself.
\<close>

theorem normalizeHttpErrorBody_json_message_counterexample:
  "normalizeHttpErrorBody json_env (Some json_body) = Some (js ''code=unknown, message='' @ long_message)
   \<and> length (js ''code=unknown, message='' @ long_message) = 422
   \<and> length json_body = 414
   \<and> formatQQBotError json_env (HttpError (js ''HTTP 500'') (Some json_body))
       = js ''HTTP 500 - code=unknown, message='' @ long_message"
  by (simp add: normalizeHttpErrorBody_def formatQQBotError_def trim_json_body json_body_nonempty
        json_env_def example_env_def json_summary_def Let_def)
     (simp add: js_def long_message_def json_body_def)

subsection \<open>Sanitization\<close>



















lemma no_reply_test: "hasNoReplySentinel (trim (js '' NO_REPLY ''))"
  by (simp add: hasNoReplySentinel_def trim_def js_def js_whitespace_def to_upper_def sublist_code(3))

































subsection \<open>Fallback delivery\<close>

lemma js_sendMedia_failed_prefix:
  "prefix (js ''sendMedia failed'') (js ''sendMedia failed: '' @ err)"
  "\<not> prefix (js ''sendText failed'') (js ''sendMedia failed: '' @ err)"
  by (simp_all add: js_def)

text \<open>
  C6. With a queue of one media item whose send fails and a text send that works, the
  orchestrator makes exactly one media attempt, logs exactly one upload failure (and no
  send failure), and sends exactly one text, which contains the source reference.
\<close>

theorem sendQQBotMediaWithFallback_single_failure:
  assumes "sendMedia ob to src = Some err" and "sendText ob to src = None"
  shows "sendQQBotMediaWithFallback ob to [src]
           = [MediaAttempt to src, LogError (js ''sendMedia failed: '' @ err), TextSend to src]
       \<and> length (filter is_media_attempt (sendQQBotMediaWithFallback ob to [src])) = 1
       \<and> (\<exists>body. filter is_text_send (sendQQBotMediaWithFallback ob to [src]) = [TextSend to body]
                 \<and> sublist src body)
       \<and> length (filter is_upload_failure_log (sendQQBotMediaWithFallback ob to [src])) = 1
       \<and> filter is_send_failure_log (sendQQBotMediaWithFallback ob to [src]) = []"
proof -
  have run: "sendQQBotMediaWithFallback ob to [src]
           = [MediaAttempt to src, LogError (js ''sendMedia failed: '' @ err), TextSend to src]"
    using assms by (simp add: sendQQBotMediaWithFallback_def)
  show ?thesis
    unfolding run using js_sendMedia_failed_prefix [of err] by simp
qed

theorem sendQQBotMediaWithFallback_single_failure_witness:
  "sendQQBotMediaWithFallback test_outbound (js ''user:123'') [js ''https://example.com/a.mp3'']
     = [MediaAttempt (js ''user:123'') (js ''https://example.com/a.mp3''),
        LogError (js ''sendMedia failed: upload failed''),
        TextSend (js ''user:123'') (js ''https://example.com/a.mp3'')]"
proof -
  have m: "sendMedia test_outbound (js ''user:123'') (js ''https://example.com/a.mp3'')
             = Some (js ''upload failed'')"
    by (simp add: test_outbound_def)
  have t: "sendText test_outbound (js ''user:123'') (js ''https://example.com/a.mp3'') = None"
    by (simp add: test_outbound_def)
  show ?thesis
    using sendQQBotMediaWithFallback_single_failure [OF m t, THEN conjunct1]
    by (simp add: js_def)
qed

subsection \<open>Single-flight token refresh\<close>

lemma fresh_None [simp]: "\<not> fresh None now"
  by (simp add: fresh_def)

text \<open>One step inside the window, from a state in which the refresh of \<open>k\<close> is in flight
  or not, and the cached entry of \<open>k\<close> is the original one or gone.\<close>

lemma window_step:
  assumes w: "in_window k entry e"
    and c: "cached s k = entry \<or> cached s k = None"
  shows "(cached (cache_step e s) k = entry \<or> cached (cache_step e s) k = None)
       \<and> inflight (cache_step e s) k =
           (case inflight s k of
              None \<Rightarrow> (if callers_of k [e] = [] then None else Some (callers_of k [e]))
            | Some ws \<Rightarrow> Some (ws @ callers_of k [e]))
       \<and> count_list (refreshes (cache_step e s)) k =
           count_list (refreshes s) k
             + (if inflight s k = None \<and> callers_of k [e] \<noteq> [] then 1 else 0)
       \<and> filter (for_key k) (delivered (cache_step e s)) = filter (for_key k) (delivered s)"
proof (cases e)
  case (GetToken caller k' now)
  show ?thesis
  proof (cases "k' = k")
    case True
    then have nf: "\<not> fresh (cached s k) now"
      using w c GetToken by auto
    show ?thesis
      using nf True GetToken c
      by (auto simp add: start_or_join_def split: option.splits)
  next
    case False
    then show ?thesis
      using GetToken c
      by (auto simp add: start_or_join_def for_key_def split: option.splits)
  qed
next
  case (RefreshDone k' outcome now)
  then have "k' \<noteq> k" using w by simp
  then show ?thesis
    using RefreshDone c
    by (auto simp add: for_key_def split: option.splits sum.splits)
next
  case (Invalidate k')
  then show ?thesis using c by (auto split: option.splits)
next
  case InvalidateAll
  then show ?thesis using c by (auto split: option.splits)
qed

lemma callers_of_Cons: "callers_of k (e # evs) = callers_of k [e] @ callers_of k evs"
  by (cases e) auto

lemma window_run:
  assumes "list_all (in_window k entry) evs"
    and "cached s k = entry \<or> cached s k = None"
  shows "(cached (run_cache evs s) k = entry \<or> cached (run_cache evs s) k = None)
       \<and> inflight (run_cache evs s) k =
           (case inflight s k of
              None \<Rightarrow> (if callers_of k evs = [] then None else Some (callers_of k evs))
            | Some ws \<Rightarrow> Some (ws @ callers_of k evs))
       \<and> count_list (refreshes (run_cache evs s)) k =
           count_list (refreshes s) k
             + (if inflight s k = None \<and> callers_of k evs \<noteq> [] then 1 else 0)
       \<and> filter (for_key k) (delivered (run_cache evs s)) = filter (for_key k) (delivered s)"
  using assms
proof (induction evs arbitrary: s)
  case Nil
  then show ?case by (simp add: run_cache_def split: option.splits)
next
  case (Cons e evs)
  define s1 where "s1 = cache_step e s"
  have we: "in_window k entry e" and wr: "list_all (in_window k entry) evs"
    using Cons.prems(1) by simp_all
  note st = window_step [OF we Cons.prems(2), folded s1_def]
  have c1: "cached s1 k = entry \<or> cached s1 k = None" by (rule st [THEN conjunct1])
  note ih = Cons.IH [OF wr c1]
  have run: "run_cache (e # evs) s = run_cache evs s1"
    by (simp add: run_cache_def s1_def)
  have cs: "callers_of k (e # evs) = callers_of k [e] @ callers_of k evs"
    by (rule callers_of_Cons)
  show ?case
    unfolding run cs
    using ih st by (auto split: option.splits if_splits)
qed

text \<open>
  C9. Take a state in which no refresh of a key is in flight, and any run inside one
  refresh window of that key in which at least one caller asks for its token: callers of
  that key interleaved, in any way, with calls, completions and invalidations for other
  keys. Then exactly one network refresh of the key is started, and when it completes,
  with a token or with an error, every caller of the key is handed that same outcome, in
  the order of the calls, and the refresh is no longer in flight.
\<close>

theorem getToken_single_flight:
  assumes win: "list_all (in_window k (cached s k)) evs"
    and idle: "inflight s k = None"
    and some: "callers_of k evs \<noteq> []"
  shows "count_list (refreshes (cache_step (RefreshDone k outcome t) (run_cache evs s))) k
           = count_list (refreshes s) k + 1
       \<and> filter (for_key k) (delivered (cache_step (RefreshDone k outcome t) (run_cache evs s)))
           = filter (for_key k) (delivered s)
               @ map (\<lambda>c. (c, k, outcome_result outcome)) (callers_of k evs)
       \<and> inflight (cache_step (RefreshDone k outcome t) (run_cache evs s)) k = None"
proof -
  define s1 where "s1 = run_cache evs s"
  have r: "inflight s1 k = Some (callers_of k evs)"
    "count_list (refreshes s1) k = count_list (refreshes s) k + 1"
    "filter (for_key k) (delivered s1) = filter (for_key k) (delivered s)"
    using window_run [OF win, of s] idle some by (simp_all add: s1_def)
  have all: "filter (for_key k) (map (\<lambda>c. (c, k, outcome_result outcome)) (callers_of k evs))
               = map (\<lambda>c. (c, k, outcome_result outcome)) (callers_of k evs)"
    by (simp add: for_key_def filter_map comp_def)
  show ?thesis
    unfolding s1_def [symmetric]
    using r all by simp
qed

theorem getToken_single_flight_witness:
  "count_list (refreshes (cache_step (RefreshDone (js ''qqbot:app'') (Inr (js ''tok'', 7200000)) 100)
                 (run_cache example_window empty_cache))) (js ''qqbot:app'') = 1
   \<and> filter (for_key (js ''qqbot:app''))
        (delivered (cache_step (RefreshDone (js ''qqbot:app'') (Inr (js ''tok'', 7200000)) 100)
                      (run_cache example_window empty_cache)))
       = [(1, js ''qqbot:app'', Token (js ''tok'')), (2, js ''qqbot:app'', Token (js ''tok'')),
          (3, js ''qqbot:app'', Token (js ''tok''))]
   \<and> filter (for_key (js ''qqbot:app''))
        (delivered (cache_step (RefreshDone (js ''qqbot:app'') (Inl (js ''401 invalid secret'')) 100)
                      (run_cache example_window empty_cache)))
       = [(1, js ''qqbot:app'', AuthError (js ''401 invalid secret'')),
          (2, js ''qqbot:app'', AuthError (js ''401 invalid secret'')),
          (3, js ''qqbot:app'', AuthError (js ''401 invalid secret''))]"
proof -
  have ne: "js ''wecom:corp'' \<noteq> js ''qqbot:app''"
    by (simp add: js_def)
  have win: "list_all (in_window (js ''qqbot:app'') (cached empty_cache (js ''qqbot:app''))) example_window"
    by (simp add: example_window_def empty_cache_def)
  have idle: "inflight empty_cache (js ''qqbot:app'') = None"
    by (simp add: empty_cache_def)
  have cs: "callers_of (js ''qqbot:app'') example_window = [1, 2, 3]"
    using ne by (simp add: example_window_def)
  have some: "callers_of (js ''qqbot:app'') example_window \<noteq> []"
    by (simp add: cs)
  show ?thesis
    using getToken_single_flight [OF win idle some, of "Inr (js ''tok'', 7200000)" 100]
          getToken_single_flight [OF win idle some, of "Inl (js ''401 invalid secret'')" 100]
    by (simp add: cs empty_cache_def)
qed

subsection \<open>Delivery policy\<close>

lemma js_final_neq_tool: "js ''tool'' \<noteq> js ''final''"
  by (simp add: js_def)

text \<open>
  C4. With \<open>replyFinalOnly\<close> enabled and a non-final kind, the decision is
  \<open>{skipDelivery: false, suppressText: true}\<close> when the event has media and
  \<open>{skipDelivery: true, suppressText: false}\<close> when it has none; an event of kind
  \<open>final\<close> is never skipped, whatever the other parameters.
\<close>

theorem evaluateReplyFinalOnlyDelivery_policy:
  "(replyFinalOnly p \<and> kind p \<noteq> js ''final'' \<longrightarrow>
      evaluateReplyFinalOnlyDelivery p =
        (if hasMedia p then \<lparr> skipDelivery = False, suppressText = True \<rparr>
         else \<lparr> skipDelivery = True, suppressText = False \<rparr>))
   \<and> (kind p = js ''final'' \<longrightarrow> \<not> skipDelivery (evaluateReplyFinalOnlyDelivery p))"
  by (simp add: evaluateReplyFinalOnlyDelivery_def)

theorem evaluateReplyFinalOnlyDelivery_policy_witness:
  "evaluateReplyFinalOnlyDelivery
     \<lparr> replyFinalOnly = True, kind = js ''tool'', hasMedia = True, sanitizedText = js ''x'' \<rparr>
     = \<lparr> skipDelivery = False, suppressText = True \<rparr>
   \<and> evaluateReplyFinalOnlyDelivery
     \<lparr> replyFinalOnly = True, kind = js ''tool'', hasMedia = False, sanitizedText = js ''x'' \<rparr>
     = \<lparr> skipDelivery = True, suppressText = False \<rparr>
   \<and> \<not> skipDelivery (evaluateReplyFinalOnlyDelivery
     \<lparr> replyFinalOnly = True, kind = js ''final'', hasMedia = False, sanitizedText = [] \<rparr>)"
  using evaluateReplyFinalOnlyDelivery_policy
          [of "\<lparr> replyFinalOnly = True, kind = js ''tool'', hasMedia = True, sanitizedText = js ''x'' \<rparr>"]
        evaluateReplyFinalOnlyDelivery_policy
          [of "\<lparr> replyFinalOnly = True, kind = js ''tool'', hasMedia = False, sanitizedText = js ''x'' \<rparr>"]
        evaluateReplyFinalOnlyDelivery_policy
          [of "\<lparr> replyFinalOnly = True, kind = js ''final'', hasMedia = False, sanitizedText = [] \<rparr>"]
        js_final_neq_tool
  by simp

subsection \<open>Registration of the CLI\<close>

lemma registeredE:
  assumes "registered w"
  obtains c s where "root_slot w = ObjRef c" "c < next_addr w" "s < next_addr w"
      "objects w c = Some \<lparr> channels = SetRef s, cliRegistered = BoolV True \<rparr>"
proof -
  obtain c where c: "root_slot w = ObjRef c"
    using assms by (cases "root_slot w") (simp_all add: registered_def)
  obtain obj where o: "objects w c = Some obj"
    using assms c by (cases "objects w c") (simp_all add: registered_def)
  have p: "c < next_addr w" "cliRegistered obj = BoolV True"
    using assms c o by (simp_all add: registered_def)
  obtain s where s: "channels obj = SetRef s" "s < next_addr w"
    using assms c o by (cases "channels obj") (simp_all add: registered_def)
  have "obj = \<lparr> channels = SetRef s, cliRegistered = BoolV True \<rparr>"
    using p s by (cases obj) simp
  then show ?thesis using that c o p s by simp
qed

lemma registeredI:
  assumes "root_slot w = ObjRef c" "c < next_addr w" "s < next_addr w"
      "objects w c = Some \<lparr> channels = SetRef s, cliRegistered = BoolV True \<rparr>"
  shows "registered w"
  using assms by (simp add: registered_def)

lemma fold_add_channel_frame:
  "root_slot (fold (add_channel a) cs w) = root_slot w
   \<and> objects (fold (add_channel a) cs w) = objects w
   \<and> next_addr (fold (add_channel a) cs w) = next_addr w
   \<and> registerCli_calls (fold (add_channel a) cs w) = registerCli_calls w"
proof (induction cs arbitrary: w)
  case Nil
  then show ?case by simp
next
  case (Cons c cs)
  have "root_slot (add_channel a c w) = root_slot w
        \<and> objects (add_channel a c w) = objects w
        \<and> next_addr (add_channel a c w) = next_addr w
        \<and> registerCli_calls (add_channel a c w) = registerCli_calls w"
    by (simp add: add_channel_def split: option.splits jsval.splits)
  then show ?case using Cons.IH [of "add_channel a c w"] by simp
qed

lemma registered_step:
  assumes "registered w"
  shows "registered (registerChinaSetupCli api chans w)
       \<and> registerCli_calls (registerChinaSetupCli api chans w) = registerCli_calls w"
proof -
  obtain c s where r: "root_slot w = ObjRef c" "c < next_addr w" "s < next_addr w"
      "objects w c = Some \<lparr> channels = SetRef s, cliRegistered = BoolV True \<rparr>"
    using assms by (rule registeredE)
  define a where "a = next_addr w"
  define w1 where "w1 = w\<lparr> objects := (objects w)(a \<mapsto> \<lparr> channels = SetRef s, cliRegistered = BoolV True \<rparr>),
                            next_addr := Suc a \<rparr>"
  have g: "getChinaCliState w = (a, w1)"
    using r by (simp add: getChinaCliState_def a_def w1_def Let_def)
  define w2 where "w2 = fold (add_channel a) (normalizeChannels chans) w1"
  note fr = fold_add_channel_frame [of a "normalizeChannels chans" w1, folded w2_def]
  have fl: "flag_of w2 a"
    using fr by (simp add: flag_of_def w1_def)
  have res: "registerChinaSetupCli api chans w = w2"
    using fl by (simp add: registerChinaSetupCli_def g w2_def [symmetric] Let_def)
  have "registered w2"
    using fr r by (intro registeredI [of _ c s]) (auto simp add: w1_def a_def)
  moreover have "registerCli_calls w2 = registerCli_calls w"
    using fr by (simp add: w1_def)
  ultimately show ?thesis by (simp add: res)
qed

lemma registered_run:
  assumes "registered w"
  shows "registered (fold (\<lambda>(api, chans). registerChinaSetupCli api chans) calls w)
       \<and> registerCli_calls (fold (\<lambda>(api, chans). registerChinaSetupCli api chans) calls w)
           = registerCli_calls w"
  using assms
proof (induction calls arbitrary: w)
  case Nil
  then show ?case by simp
next
  case (Cons x xs)
  obtain api chans where x: "x = (api, chans)" by (cases x)
  note st = registered_step [OF Cons.prems, of api chans]
  show ?case
    using Cons.IH [OF st [THEN conjunct1]] st by (simp add: x)
qed

lemma first_registration:
  assumes "registerCli_is_function api"
  shows "registered (registerChinaSetupCli api chans empty_store)
       \<and> registerCli_calls (registerChinaSetupCli api chans empty_store) = [1]"
proof -
  define a :: addr where "a = 1"
  define w1 where "w1 = snd (getChinaCliState empty_store)"
  have g: "getChinaCliState empty_store = (a, w1)"
    by (simp add: w1_def a_def getChinaCliState_def create_state_def empty_store_def Let_def)
  have w1: "root_slot w1 = ObjRef a" "next_addr w1 = Suc a" "registerCli_calls w1 = []"
    "objects w1 a = Some \<lparr> channels = SetRef 0, cliRegistered = BoolV False \<rparr>"
    by (simp_all add: w1_def a_def getChinaCliState_def create_state_def empty_store_def Let_def)
  define w2 where "w2 = fold (add_channel a) (normalizeChannels chans) w1"
  note fr = fold_add_channel_frame [of a "normalizeChannels chans" w1, folded w2_def]
  have nf: "\<not> flag_of w2 a" using fr w1 by (simp add: flag_of_def)
  have ob: "objects w2 a = Some \<lparr> channels = SetRef 0, cliRegistered = BoolV False \<rparr>"
    using fr w1 by simp
  have res: "registerChinaSetupCli api chans empty_store
               = w2\<lparr> objects := (objects w2)(a \<mapsto> \<lparr> channels = SetRef 0, cliRegistered = BoolV True \<rparr>),
                     registerCli_calls := registerCli_calls w2 @ [a] \<rparr>"
    using nf assms ob
    by (simp add: registerChinaSetupCli_def g w2_def [symmetric] Let_def)
  have "registered (w2\<lparr> objects := (objects w2)(a \<mapsto> \<lparr> channels = SetRef 0, cliRegistered = BoolV True \<rparr>),
                     registerCli_calls := registerCli_calls w2 @ [a] \<rparr>)"
    using fr w1 by (intro registeredI [of _ a 0]) simp_all
  moreover have "registerCli_calls w2 @ [a] = [1]"
    using fr w1 by (simp add: a_def)
  ultimately show ?thesis by (simp add: res)
qed

text \<open>
  When the very first call of the process meets an api with a \<open>registerCli\<close> function,
  the flag is set on the object that call has just stored globally, and no later call
  registers again.
\<close>

lemma registerChinaSetupCli_once_when_first_call_registers:
  assumes "registerCli_is_function api"
  shows "registerCli_calls (run_registrations ((api, chans) # calls)) = [1]"
  using first_registration [OF assms, of chans]
        registered_run [of "registerChinaSetupCli api chans empty_store" calls]
  by (simp add: run_registrations_def)

text \<open>
  C10. The registrar is meant to reach \<open>api.registerCli\<close> at most once per process.
  Here the first call meets an api with no \<open>registerCli\<close> function (the state is created
  with the flag unset), and the two calls after it each meet one that has it: both read
  a copy of the state, set the flag on their copy, and call \<open>api.registerCli\<close>. The
  flag of the global object is never set, while the channel ids, held in the shared
  \<open>Set\<close>, do accumulate.
\<close>

theorem registerChinaSetupCli_registers_twice:
  "registerCli_calls (run_registrations
     [(\<lparr> registerCli_is_function = False \<rparr>, Some [dingtalk]),
      (\<lparr> registerCli_is_function = True \<rparr>, Some [qqbot]),
      (\<lparr> registerCli_is_function = True \<rparr>, Some [wecom])]) = [2, 3]
   \<and> installed_channels (run_registrations
     [(\<lparr> registerCli_is_function = False \<rparr>, Some [dingtalk]),
      (\<lparr> registerCli_is_function = True \<rparr>, Some [qqbot]),
      (\<lparr> registerCli_is_function = True \<rparr>, Some [wecom])]) = {dingtalk, qqbot, wecom}"
  by (simp add: run_registrations_def registerChinaSetupCli_def getChinaCliState_def
        create_state_def empty_store_def add_channel_def flag_of_def normalizeChannels_def
        isChannelId_def CHANNEL_ORDER_def installed_channels_def Let_def insert_commute)

end
